theory Spec2Isabelle
  imports Main "HOL-Library.Word"
begin

section \<open>RTP-over-SRT receiver: a shallow embedding of RTP-over-SRT.cpp\<close>

text \<open>
  The receiver is GLib/GStreamer glue code written in C. Pointers that may be NULL
  (\<open>const gchar*\<close>, \<open>GstCaps*\<close>) are \<open>option\<close> values, \<open>guint\<close> is a 32-bit word,
  and what a function prints is returned next to its result.
\<close>

subsection \<open>Strings\<close>

abbreviation newline :: char where
  "newline \<equiv> CHR 0x0A"

text \<open>\<open>g_strconcat (s1, ..., NULL)\<close>: the arguments joined in order.\<close>

definition g_strconcat :: "string list \<Rightarrow> string" where
  "g_strconcat ss = concat ss"

text \<open>\<open>g_str_has_prefix (str, prefix)\<close>.\<close>

fun g_str_has_prefix :: "string \<Rightarrow> string \<Rightarrow> bool" where
  "g_str_has_prefix s [] = True"
| "g_str_has_prefix [] (p # ps) = False"
| "g_str_has_prefix (c # cs) (p # ps) = (c = p \<and> g_str_has_prefix cs ps)"

text \<open>Splitting at a separator character, and dropping blanks at both ends.\<close>

fun split_on :: "char \<Rightarrow> string \<Rightarrow> string list" where
  "split_on c [] = [[]]"
| "split_on c (x # xs) =
     (if x = c then [] # split_on c xs
      else (case split_on c xs of
              [] \<Rightarrow> [[x]]
            | w # ws \<Rightarrow> (x # w) # ws))"

definition is_blank :: "char \<Rightarrow> bool" where
  "is_blank c = (c = CHR '' '')"

definition strip :: "string \<Rightarrow> string" where
  "strip s = rev (dropWhile is_blank (rev (dropWhile is_blank s)))"

text \<open>The part of a string before the first \<open>c\<close> and the part after it.\<close>

definition before_char :: "char \<Rightarrow> string \<Rightarrow> string" where
  "before_char c s = takeWhile (\<lambda>x. x \<noteq> c) s"

definition after_char :: "char \<Rightarrow> string \<Rightarrow> string" where
  "after_char c s = drop 1 (dropWhile (\<lambda>x. x \<noteq> c) s)"

subsection \<open>\<open>build_streamid\<close> (lines 87 to 113)\<close>

text \<open>
  \<open>u_tag\<close> and \<open>r_tag\<close> are set only for a non-NULL argument
  (\<open>g_strdup_printf ("u=%s", u)\<close>); \<open>streamid\<close> starts as NULL and is assigned only
  inside \<open>if (u || r)\<close>; the function returns the pointer it holds then.
\<close>

definition non_null :: "'a option \<Rightarrow> bool" where
  "non_null p = (case p of None \<Rightarrow> False | Some _ \<Rightarrow> True)"

definition build_streamid :: "string option \<Rightarrow> string option \<Rightarrow> string option" where
  "build_streamid u r =
     (let u_tag = (case u of None \<Rightarrow> None | Some s \<Rightarrow> Some (''u='' @ s));
          r_tag = (case r of None \<Rightarrow> None | Some s \<Rightarrow> Some (''r='' @ s))
      in if non_null u \<or> non_null r
         then Some (g_strconcat
                [''#!::'',
                 (case u_tag of Some t \<Rightarrow> t | None \<Rightarrow> ''''),
                 (if non_null u \<and> non_null r then '','' else ''''),
                 (case r_tag of Some t \<Rightarrow> t | None \<Rightarrow> '''')])
         else None)"

subsection \<open>\<open>_request_pt_map_cb\<close> (lines 131 to 152)\<close>

text \<open>
  A \<open>GstCaps\<close> with one structure: its media type and its fields, each field a name
  with the type and the value written in the caps string (\<open>name=(type)value\<close>).
\<close>

record gst_caps =
  caps_name :: string
  caps_fields :: "(string \<times> string \<times> string) list"

definition parse_caps_field :: "string \<Rightarrow> string \<times> string \<times> string" where
  "parse_caps_field f =
     (let name = strip (before_char (CHR ''='') f);
          rhs = strip (after_char (CHR ''='') f)
      in (name, before_char (CHR '')'') (drop 1 rhs), after_char (CHR '')'') rhs))"

text \<open>
  \<open>gst_caps_from_string\<close> on the comma-separated form the source uses; NULL for a
  string with no media type.
\<close>

definition gst_caps_from_string :: "string \<Rightarrow> gst_caps option" where
  "gst_caps_from_string s =
     (case split_on (CHR '','') s of
        [] \<Rightarrow> None
      | n # fs \<Rightarrow>
          (if strip n = [] then None
           else Some \<lparr>caps_name = strip n, caps_fields = map parse_caps_field fs\<rparr>))"

definition caps_field :: "gst_caps \<Rightarrow> string \<Rightarrow> (string \<times> string) option" where
  "caps_field c k = map_of (caps_fields c) k"

text \<open>The returned pair is what \<open>g_print\<close> wrote and the \<open>caps\<close> pointer.\<close>

definition request_pt_map_cb :: "32 word \<Rightarrow> string list \<times> gst_caps option" where
  "request_pt_map_cb pt =
     (if pt = 96 then
        ([], gst_caps_from_string
          ''application/x-rtp, encoding-name=(string)H264, media=(string)video, clock-rate=(int)90000'')
      else if pt = 99 then
        ([], gst_caps_from_string
          ''application/x-rtp, encoding-name=(string)X-GST, media=(string)application, clock-rate=(int)90000'')
      else ([''wrong! pt'' @ [newline]], None))"

text \<open>The two format descriptors the resolver knows.\<close>

definition is_h264_video_caps :: "gst_caps \<Rightarrow> bool" where
  "is_h264_video_caps c =
     (caps_name c = ''application/x-rtp''
      \<and> caps_field c ''encoding-name'' = Some (''string'', ''H264'')
      \<and> caps_field c ''media'' = Some (''string'', ''video''))"

definition is_application_data_caps :: "gst_caps \<Rightarrow> bool" where
  "is_application_data_caps c =
     (caps_name c = ''application/x-rtp''
      \<and> caps_field c ''encoding-name'' = Some (''string'', ''X-GST'')
      \<and> caps_field c ''media'' = Some (''string'', ''application''))"

subsection \<open>Printing numbers\<close>

text \<open>What \<open>%u\<close> and \<open>%d\<close> print.\<close>

definition digit_char :: "nat \<Rightarrow> char" where
  "digit_char d = ''0123456789'' ! (d mod 10)"

function show_nat :: "nat \<Rightarrow> string" where
  "show_nat n = (if n < 10 then [digit_char n] else show_nat (n div 10) @ [digit_char n])"
  by pat_completeness auto
termination
  by (relation "measure id") auto

definition show_int :: "int \<Rightarrow> string" where
  "show_int i = (if i < 0 then CHR ''-'' # show_nat (nat (- i)) else show_nat (nat i))"

subsection \<open>The graph the callbacks work on\<close>

text \<open>
  The callbacks of the source run on GStreamer's streaming threads and change the
  pipeline through the GStreamer API. The state they change is written out: the bins
  and ghost pads allocated so far (an object is its index), the links from the
  demultiplexer's source pads, what was printed, and the API calls in the order they
  were made. A source pad of the demultiplexer is identified by its payload type.
\<close>

datatype GstState = GST_STATE_NULL | GST_STATE_READY | GST_STATE_PAUSED | GST_STATE_PLAYING

datatype GstPadLinkReturn =
    GST_PAD_LINK_OK
  | GST_PAD_LINK_WRONG_HIERARCHY
  | GST_PAD_LINK_WAS_LINKED
  | GST_PAD_LINK_WRONG_DIRECTION
  | GST_PAD_LINK_NOFORMAT
  | GST_PAD_LINK_NOSCHED
  | GST_PAD_LINK_REFUSED

datatype GstPadProbeReturn =
    GST_PAD_PROBE_DROP
  | GST_PAD_PROBE_OK
  | GST_PAD_PROBE_REMOVE
  | GST_PAD_PROBE_PASS
  | GST_PAD_PROBE_HANDLED

text \<open>The two probe callbacks of the source, as the function pointer handed over.\<close>

datatype probe_cb = Link_cb | Link_gstdepay_cb

type_synonym gst_pad = "32 word"

definition GST_PAD_NAME :: "gst_pad \<Rightarrow> string" where
  "GST_PAD_NAME pad = ''src_'' @ show_nat (unat pad)"

record gst_element =
  factory :: string
  properties :: "(string \<times> string) list"

record gst_bin =
  bin_elements :: "gst_element list"
  bin_state :: GstState
  bin_in_pipeline :: bool
  bin_pads :: "nat list"

type_synonym pad_ref = "nat \<times> string \<times> string"

record gst_ghost_pad =
  gp_target :: "pad_ref option"
  gp_active :: bool

datatype gst_call =
    Call_parse_launch string nat
  | Call_bin_add nat
  | Call_ghost_pad_new nat
  | Call_element_add_pad nat nat
  | Call_pad_link gst_pad nat GstPadLinkReturn
  | Call_pad_set_active nat bool
  | Call_sync_state_with_parent nat
  | Call_pad_add_probe gst_pad probe_cb
  | Call_probe_cb gst_pad probe_cb
  | Signal_new_payload_type "32 word" gst_pad

record rtp_packet =
  pkt_pt :: "32 word"
  pkt_seqnum :: nat

record gst_world =
  w_stdout :: "string list"
  w_stderr :: "string list"
  w_calls :: "gst_call list"
  w_link_answer :: "gst_pad \<Rightarrow> GstPadLinkReturn"
  w_pipeline_state :: GstState
  w_bins :: "gst_bin list"
  w_ghost_pads :: "gst_ghost_pad list"
  w_links :: "(gst_pad \<times> nat) list"
  w_probes :: "(gst_pad \<times> probe_cb) list"
  w_seen :: "32 word list"
  w_src_pads :: "gst_pad list"
  w_pushed :: "(gst_pad \<times> rtp_packet) list"

text \<open>
  A callback either returns, or the process is aborted inside it (\<open>g_error\<close> logs at
  the fatal level and calls \<open>abort\<close>).
\<close>

datatype 'a outcome = Returns 'a gst_world | Aborts gst_world

fun final_world :: "'a outcome \<Rightarrow> gst_world" where
  "final_world (Returns r w) = w"
| "final_world (Aborts w) = w"

fun aborted :: "'a outcome \<Rightarrow> bool" where
  "aborted (Returns r w) = False"
| "aborted (Aborts w) = True"

definition g_print :: "string \<Rightarrow> gst_world \<Rightarrow> gst_world" where
  "g_print s w = w\<lparr>w_stdout := w_stdout w @ [s]\<rparr>"

definition g_error :: "string \<Rightarrow> gst_world \<Rightarrow> gst_world" where
  "g_error s w = w\<lparr>w_stderr := w_stderr w @ [s]\<rparr>"

definition log_call :: "gst_call \<Rightarrow> gst_world \<Rightarrow> gst_world" where
  "log_call c w = w\<lparr>w_calls := w_calls w @ [c]\<rparr>"

subsection \<open>The GStreamer calls of the callbacks\<close>

text \<open>
  A pipeline description \<open>e1 ! e2 ! ...\<close>: the elements in link order, each a factory
  name followed by \<open>property=value\<close> settings.
\<close>

definition parse_property :: "string \<Rightarrow> string \<times> string" where
  "parse_property s = (before_char (CHR ''='') s, after_char (CHR ''='') s)"

definition parse_element :: "string \<Rightarrow> gst_element option" where
  "parse_element s =
     (case filter (\<lambda>t. t \<noteq> []) (split_on (CHR '' '') s) of
        [] \<Rightarrow> None
      | f # ps \<Rightarrow> Some \<lparr>factory = f, properties = map parse_property ps\<rparr>)"

definition parse_description :: "string \<Rightarrow> gst_element list" where
  "parse_description d = List.map_filter parse_element (split_on (CHR ''!'') d)"

text \<open>
  \<open>gst_parse_launch (description, NULL)\<close> allocates a bin holding the linked chain, in
  state NULL and without a parent. The callbacks use the result unchecked.
\<close>

definition gst_parse_launch :: "string \<Rightarrow> gst_world \<Rightarrow> nat \<times> gst_world" where
  "gst_parse_launch d w =
     (let b = length (w_bins w);
          bin = \<lparr>bin_elements = parse_description d, bin_state = GST_STATE_NULL,
                 bin_in_pipeline = False, bin_pads = []\<rparr>
      in (b, log_call (Call_parse_launch d b) (w\<lparr>w_bins := w_bins w @ [bin]\<rparr>)))"

text \<open>Changing the object at an index; an index that names no object changes nothing.\<close>

definition map_at :: "nat \<Rightarrow> ('a \<Rightarrow> 'a) \<Rightarrow> 'a list \<Rightarrow> 'a list" where
  "map_at i f xs = (if i < length xs then xs[i := f (xs ! i)] else xs)"

definition update_bin :: "nat \<Rightarrow> (gst_bin \<Rightarrow> gst_bin) \<Rightarrow> gst_world \<Rightarrow> gst_world" where
  "update_bin b f w = w\<lparr>w_bins := map_at b f (w_bins w)\<rparr>"

definition update_ghost_pad ::
  "nat \<Rightarrow> (gst_ghost_pad \<Rightarrow> gst_ghost_pad) \<Rightarrow> gst_world \<Rightarrow> gst_world" where
  "update_ghost_pad g f w = w\<lparr>w_ghost_pads := map_at g f (w_ghost_pads w)\<rparr>"

text \<open>\<open>gst_bin_add (GST_BIN (pipeline), sinkbin)\<close>: the pipeline becomes the parent.\<close>

definition gst_bin_add :: "nat \<Rightarrow> gst_world \<Rightarrow> gst_world" where
  "gst_bin_add b w = log_call (Call_bin_add b) (update_bin b (\<lambda>x. x\<lparr>bin_in_pipeline := True\<rparr>) w)"

definition element_name :: "gst_element \<Rightarrow> string option" where
  "element_name e = map_of (properties e) ''name''"

definition nth_opt :: "'a list \<Rightarrow> nat \<Rightarrow> 'a option" where
  "nth_opt xs i = (if i < length xs then Some (xs ! i) else None)"

definition gst_bin_get_by_name :: "nat \<Rightarrow> string \<Rightarrow> gst_world \<Rightarrow> (nat \<times> string) option" where
  "gst_bin_get_by_name b n w =
     (case nth_opt (w_bins w) b of
        None \<Rightarrow> None
      | Some bin \<Rightarrow>
          (case find (\<lambda>e. element_name e = Some n) (bin_elements bin) of
             None \<Rightarrow> None
           | Some e \<Rightarrow> Some (b, n)))"

definition gst_element_get_static_pad :: "(nat \<times> string) option \<Rightarrow> string \<Rightarrow> pad_ref option" where
  "gst_element_get_static_pad el p =
     (case el of None \<Rightarrow> None | Some (b, n) \<Rightarrow> Some (b, n, p))"

text \<open>\<open>gst_ghost_pad_new (NULL, target)\<close> allocates an inactive ghost pad.\<close>

definition gst_ghost_pad_new :: "pad_ref option \<Rightarrow> gst_world \<Rightarrow> nat \<times> gst_world" where
  "gst_ghost_pad_new target w =
     (let g = length (w_ghost_pads w)
      in (g, log_call (Call_ghost_pad_new g)
               (w\<lparr>w_ghost_pads := w_ghost_pads w @ [\<lparr>gp_target = target, gp_active = False\<rparr>]\<rparr>)))"

definition gst_element_add_pad :: "nat \<Rightarrow> nat \<Rightarrow> gst_world \<Rightarrow> gst_world" where
  "gst_element_add_pad b g w =
     log_call (Call_element_add_pad b g) (update_bin b (\<lambda>x. x\<lparr>bin_pads := bin_pads x @ [g]\<rparr>) w)"

text \<open>
  \<open>gst_pad_link (pad, gpad)\<close>: a source pad that is linked already answers
  \<open>GST_PAD_LINK_WAS_LINKED\<close>; otherwise the answer is the environment's, and the link
  is made only for \<open>GST_PAD_LINK_OK\<close>.
\<close>

definition link_answer :: "gst_pad \<Rightarrow> gst_world \<Rightarrow> GstPadLinkReturn" where
  "link_answer pad w =
     (if pad \<in> set (map fst (w_links w)) then GST_PAD_LINK_WAS_LINKED else w_link_answer w pad)"

definition gst_pad_link :: "gst_pad \<Rightarrow> nat \<Rightarrow> gst_world \<Rightarrow> GstPadLinkReturn \<times> gst_world" where
  "gst_pad_link pad g w =
     (let r = link_answer pad w;
          w1 = log_call (Call_pad_link pad g r) w
      in (r, if r = GST_PAD_LINK_OK then w1\<lparr>w_links := w_links w1 @ [(pad, g)]\<rparr> else w1))"

definition gst_pad_set_active :: "nat \<Rightarrow> bool \<Rightarrow> gst_world \<Rightarrow> gst_world" where
  "gst_pad_set_active g a w =
     log_call (Call_pad_set_active g a) (update_ghost_pad g (\<lambda>x. x\<lparr>gp_active := a\<rparr>) w)"

text \<open>
  \<open>gst_element_sync_state_with_parent (sinkbin)\<close>: a bin with a parent takes the
  parent's state.
\<close>

definition gst_element_sync_state_with_parent :: "nat \<Rightarrow> gst_world \<Rightarrow> gst_world" where
  "gst_element_sync_state_with_parent b w =
     log_call (Call_sync_state_with_parent b)
       (update_bin b (\<lambda>x. if bin_in_pipeline x then x\<lparr>bin_state := w_pipeline_state w\<rparr> else x) w)"

subsection \<open>\<open>_link_cb\<close> (lines 154 to 195)\<close>

text \<open>The pipeline description handed to \<open>gst_parse_launch\<close> (lines 171 to 174).\<close>

definition video_description :: string where
  "video_description =
     ''queue name=q ! rtph264depay ! h264parse ! decodebin ! autovideosink async=true''"

definition link_cb :: "gst_pad \<Rightarrow> gst_world \<Rightarrow> GstPadProbeReturn outcome" where
  "link_cb pad w0 =
     (let w1 = g_print (''pad link probe : '' @ GST_PAD_NAME pad @ [newline]) w0;
          (sinkbin, w2) = gst_parse_launch video_description w1;
          w3 = gst_bin_add sinkbin w2;
          first = gst_bin_get_by_name sinkbin ''q'' w3;
          qpad = gst_element_get_static_pad first ''sink'';
          (gpad, w4) = gst_ghost_pad_new qpad w3;
          w5 = gst_element_add_pad sinkbin gpad w4;
          (r, w6) = gst_pad_link pad gpad w5
      in if r \<noteq> GST_PAD_LINK_OK then Aborts (g_error ''failed to link pad to gpad'' w6)
         else
           (let w7 = gst_pad_set_active gpad True w6;
                w8 = gst_element_sync_state_with_parent sinkbin w7;
                w9 = g_print (''linking done for video'' @ [newline]) w8
            in Returns GST_PAD_PROBE_REMOVE w9))"

subsection \<open>\<open>_link_gstdepay_cb\<close> (lines 197 to 229)\<close>

text \<open>The pipeline description handed to \<open>gst_parse_launch\<close> (lines 210 to 213).\<close>

definition gstdepay_description :: string where
  "gstdepay_description =
     ''queue name=q ! rtpgstdepay name=depay ! identity dump=true ! fakesink sync=false''"

definition link_gstdepay_cb :: "gst_pad \<Rightarrow> gst_world \<Rightarrow> GstPadProbeReturn outcome" where
  "link_gstdepay_cb pad w0 =
     (let (sinkbin, w1) = gst_parse_launch gstdepay_description w0;
          w2 = gst_bin_add sinkbin w1;
          first = gst_bin_get_by_name sinkbin ''q'' w2;
          qpad = gst_element_get_static_pad first ''sink'';
          w3 = gst_element_sync_state_with_parent sinkbin w2;
          (gpad, w4) = gst_ghost_pad_new qpad w3;
          w5 = gst_element_add_pad sinkbin gpad w4;
          w6 = gst_pad_set_active gpad True w5;
          (r, w7) = gst_pad_link pad gpad w6
      in Returns GST_PAD_PROBE_REMOVE w7)"

subsection \<open>\<open>_new_payload_type_cb\<close> (lines 232 to 247)\<close>

fun run_probe_cb :: "probe_cb \<Rightarrow> gst_pad \<Rightarrow> gst_world \<Rightarrow> GstPadProbeReturn outcome" where
  "run_probe_cb Link_cb pad w = link_cb pad (log_call (Call_probe_cb pad Link_cb) w)"
| "run_probe_cb Link_gstdepay_cb pad w =
     link_gstdepay_cb pad (log_call (Call_probe_cb pad Link_gstdepay_cb) w)"

text \<open>
  \<open>gst_pad_add_probe (pad, GST_PAD_PROBE_TYPE_IDLE, cb, pipeline, NULL)\<close> on a pad
  through which nothing flows: the callback is called at once, on the calling thread,
  and the probe stays installed unless the callback returns \<open>GST_PAD_PROBE_REMOVE\<close>.
\<close>

definition gst_pad_add_probe :: "gst_pad \<Rightarrow> probe_cb \<Rightarrow> gst_world \<Rightarrow> unit outcome" where
  "gst_pad_add_probe pad cb w =
     (case run_probe_cb cb pad (log_call (Call_pad_add_probe pad cb) w) of
        Aborts w' \<Rightarrow> Aborts w'
      | Returns r w' \<Rightarrow>
          Returns () (if r = GST_PAD_PROBE_REMOVE then w'
                      else w'\<lparr>w_probes := w_probes w' @ [(pad, cb)]\<rparr>))"

definition new_payload_type_cb :: "32 word \<Rightarrow> gst_pad \<Rightarrow> gst_world \<Rightarrow> unit outcome" where
  "new_payload_type_cb pt pad w0 =
     (let w1 = g_print (''new payload type pt: '' @ show_int (sint pt) @ [newline]) w0
      in if pt = 96 then gst_pad_add_probe pad Link_cb w1
         else if pt = 99 then gst_pad_add_probe pad Link_gstdepay_cb w1
         else Returns () w1)"

subsection \<open>The stream demultiplexer\<close>

text \<open>
  Pushing a packet through a source pad: the idle probes still installed on the pad run
  first, then the packet leaves through the pad.
\<close>

fun run_idle_probes :: "(gst_pad \<times> probe_cb) list \<Rightarrow> gst_world \<Rightarrow> unit outcome" where
  "run_idle_probes [] w = Returns () w"
| "run_idle_probes ((pad, cb) # ps) w =
     (case run_probe_cb cb pad w of
        Aborts w' \<Rightarrow> Aborts w'
      | Returns r w' \<Rightarrow>
          run_idle_probes ps
            (if r = GST_PAD_PROBE_REMOVE
             then w'\<lparr>w_probes := remove1 (pad, cb) (w_probes w')\<rparr> else w'))"

definition gst_pad_push :: "gst_pad \<Rightarrow> rtp_packet \<Rightarrow> gst_world \<Rightarrow> unit outcome" where
  "gst_pad_push pad p w =
     (case run_idle_probes (filter (\<lambda>x. fst x = pad) (w_probes w)) w of
        Aborts w' \<Rightarrow> Aborts w'
      | Returns u w' \<Rightarrow> Returns () (w'\<lparr>w_pushed := w_pushed w' @ [(pad, p)]\<rparr>))"

text \<open>
  Modelled from the spec: the stream demultiplexer, which is the \<open>rtpptdemux\<close> element
  that \<open>build_recv_pipeline\<close> creates by name (line 258) and connects
  \<open>_new_payload_type_cb\<close> and \<open>_request_pt_map_cb\<close> to (lines 271 and 272); the
  element's code is not part of the sources. Section 4.3 of the spec: a packet with a
  payload type not seen before makes the demultiplexer consult the resolver; if the type
  is resolved, a port is created for it and the attachment event is raised before the
  packet flows through the port; if it is not resolved, the packet and every later
  packet of that type are discarded, with no port and no event. A packet of a type seen
  before is forwarded to the existing port, with no event. Packets are handled one
  after the other, in the order of the list.
\<close>

definition demux_chain :: "rtp_packet \<Rightarrow> gst_world \<Rightarrow> unit outcome" where
  "demux_chain p w =
     (let pt = pkt_pt p
      in if pt \<in> set (w_seen w) then
           (if pt \<in> set (w_src_pads w) then gst_pad_push pt p w else Returns () w)
         else
           (let w1 = w\<lparr>w_seen := w_seen w @ [pt]\<rparr>;
                (printed, caps) = request_pt_map_cb pt;
                w2 = w1\<lparr>w_stdout := w_stdout w1 @ printed\<rparr>
            in case caps of
                 None \<Rightarrow> Returns () w2
               | Some c \<Rightarrow>
                   (let w3 = w2\<lparr>w_src_pads := w_src_pads w2 @ [pt]\<rparr>;
                        w4 = log_call (Signal_new_payload_type pt pt) w3
                    in case new_payload_type_cb pt pt w4 of
                         Aborts w' \<Rightarrow> Aborts w'
                       | Returns u w5 \<Rightarrow> gst_pad_push pt p w5)))"

text \<open>
  Modelled from the spec: a run of the demultiplexer over the packets that arrive, in
  their order of arrival; nothing more is handled once the process has been aborted.
\<close>

fun demux_run :: "rtp_packet list \<Rightarrow> gst_world \<Rightarrow> unit outcome" where
  "demux_run [] w = Returns () w"
| "demux_run (p # ps) w =
     (case demux_chain p w of
        Aborts w' \<Rightarrow> Aborts w'
      | Returns u w' \<Rightarrow> demux_run ps w')"

text \<open>
  The graph before the first packet: no port, no branch, nothing printed. The answers
  of \<open>gst_pad_link\<close> and the state of the pipeline are the environment's.
\<close>

definition initial_world :: "(gst_pad \<Rightarrow> GstPadLinkReturn) \<Rightarrow> GstState \<Rightarrow> gst_world" where
  "initial_world answer st =
     \<lparr>w_stdout = [], w_stderr = [], w_calls = [], w_link_answer = answer,
      w_pipeline_state = st, w_bins = [], w_ghost_pads = [], w_links = [], w_probes = [],
      w_seen = [], w_src_pads = [], w_pushed = []\<rparr>"

subsection \<open>Reading the graph\<close>

fun signal_pt :: "gst_call \<Rightarrow> 32 word option" where
  "signal_pt (Signal_new_payload_type pt pad) = Some pt"
| "signal_pt c = None"

fun probe_cb_pad :: "gst_call \<Rightarrow> gst_pad option" where
  "probe_cb_pad (Call_probe_cb pad cb) = Some pad"
| "probe_cb_pad c = None"

text \<open>The payload types an attachment event was raised for, in order.\<close>

definition attachment_events :: "gst_world \<Rightarrow> 32 word list" where
  "attachment_events w = List.map_filter signal_pt (w_calls w)"

text \<open>The pads a branch-building probe callback ran on, one entry for each run.\<close>

definition builder_runs :: "gst_world \<Rightarrow> gst_pad list" where
  "builder_runs w = List.map_filter probe_cb_pad (w_calls w)"

text \<open>The bins that the source pad of a payload type is linked to.\<close>

definition ghost_pad_bins :: "gst_world \<Rightarrow> nat \<Rightarrow> nat list" where
  "ghost_pad_bins w g = filter (\<lambda>b. g \<in> set (bin_pads (w_bins w ! b))) [0 ..< length (w_bins w)]"

definition linked_bins :: "gst_world \<Rightarrow> gst_pad \<Rightarrow> nat list" where
  "linked_bins w pad =
     concat (map (\<lambda>l. ghost_pad_bins w (snd l)) (filter (\<lambda>l. fst l = pad) (w_links w)))"

text \<open>
  The stage kinds of the spec (section 4.4), and the GStreamer element factories of the
  two descriptions read as such.
\<close>

datatype stage =
    Buffering_queue
  | Rtp_depacketizer
  | Generic_rtp_depacketizer
  | Format_parser
  | Decoder
  | Display_sink
  | Consumption_sink
  | Other_stage string

definition stage_of :: "gst_element \<Rightarrow> stage" where
  "stage_of e =
     (if factory e = ''queue'' then Buffering_queue
      else if factory e = ''rtph264depay'' then Rtp_depacketizer
      else if factory e = ''rtpgstdepay'' then Generic_rtp_depacketizer
      else if factory e = ''h264parse'' then Format_parser
      else if factory e = ''decodebin'' then Decoder
      else if factory e = ''autovideosink'' then Display_sink
      else if factory e = ''fakesink'' then Consumption_sink
      else Other_stage (factory e))"

text \<open>
  The stages of a chain of elements. The spec counts a data-dump as the consumption
  sink: an \<open>identity\<close> element directly before the \<open>fakesink\<close> (it passes its input
  on unchanged and, with \<open>dump=true\<close>, prints it) is part of that sink. Every other
  element is a stage of its own.
\<close>

fun stages_of :: "gst_element list \<Rightarrow> stage list" where
  "stages_of [] = []"
| "stages_of [e] = [stage_of e]"
| "stages_of (e # e' # es) =
     (if factory e = ''identity'' \<and> factory e' = ''fakesink''
      then Consumption_sink # stages_of es
      else stage_of e # stages_of (e' # es))"

definition branch_stages :: "gst_world \<Rightarrow> stage list list" where
  "branch_stages w = map (\<lambda>b. stages_of (bin_elements b)) (w_bins w)"

subsection \<open>Reading the calls of a callback\<close>

text \<open>The API calls that a callback made, when it was started in the world \<open>w\<close>.\<close>

definition calls_made :: "(gst_world \<Rightarrow> 'a outcome) \<Rightarrow> gst_world \<Rightarrow> gst_call list" where
  "calls_made cb w = drop (length (w_calls w)) (w_calls (final_world (cb w)))"

fun is_pad_link :: "gst_call \<Rightarrow> bool" where
  "is_pad_link (Call_pad_link pad g r) = True"
| "is_pad_link c = False"

fun is_sync_state :: "gst_call \<Rightarrow> bool" where
  "is_sync_state (Call_sync_state_with_parent b) = True"
| "is_sync_state c = False"

text \<open>
  The state of the branch is synchronized, and only after the branch was linked: there
  is a \<open>gst_element_sync_state_with_parent\<close> after the first \<open>gst_pad_link\<close>, and
  none before it.
\<close>

definition sync_only_after_link :: "gst_call list \<Rightarrow> bool" where
  "sync_only_after_link cs =
     (list_ex is_sync_state (dropWhile (\<lambda>c. \<not> is_pad_link c) cs)
      \<and> \<not> list_ex is_sync_state (takeWhile (\<lambda>c. \<not> is_pad_link c) cs))"

subsection \<open>The invariant of a run\<close>

text \<open>The payload types that \<open>_request_pt_map_cb\<close> resolves.\<close>

definition mapped_pt :: "32 word \<Rightarrow> bool" where
  "mapped_pt pt = (pt = 96 \<or> pt = 99)"

text \<open>
  What holds of the graph after every packet: no probe stays installed; the ports are
  those of the resolved payload types among the types seen, in the order they were first
  seen; every port has had its attachment event and its run of a branch-building
  callback, which made one bin with one ghost pad; a port has at most one link, and
  packets leave through ports only.
\<close>

definition attach_inv :: "gst_world \<Rightarrow> bool" where
  "attach_inv w =
     (w_probes w = []
      \<and> distinct (w_seen w)
      \<and> w_src_pads w = filter mapped_pt (w_seen w)
      \<and> attachment_events w = w_src_pads w
      \<and> builder_runs w = w_src_pads w
      \<and> length (w_bins w) = length (w_src_pads w)
      \<and> length (w_ghost_pads w) = length (w_bins w)
      \<and> map bin_pads (w_bins w) = map (\<lambda>i. [i]) [0 ..< length (w_bins w)]
      \<and> distinct (map fst (w_links w))
      \<and> set (map fst (w_links w)) \<subseteq> set (w_src_pads w)
      \<and> set (map fst (w_pushed w)) \<subseteq> set (w_src_pads w))"

text \<open>The graph at the end of a run over the packets \<open>ps\<close>.\<close>

definition run_end :: "rtp_packet list \<Rightarrow> (gst_pad \<Rightarrow> GstPadLinkReturn) \<Rightarrow> GstState \<Rightarrow> gst_world" where
  "run_end ps answer st = final_world (demux_run ps (initial_world answer st))"

subsection \<open>Leaving the unresolved payload types out\<close>

text \<open>
  The graph with the traces of unresolved payload types removed: their marks in the
  demultiplexer and the lines that the resolver printed for them.
\<close>

definition forget_unmapped :: "gst_world \<Rightarrow> gst_world" where
  "forget_unmapped w =
     w\<lparr>w_stdout := filter (\<lambda>l. l \<noteq> ''wrong! pt'' @ [newline]) (w_stdout w),
       w_seen := filter mapped_pt (w_seen w)\<rparr>"

fun on_world :: "(gst_world \<Rightarrow> gst_world) \<Rightarrow> 'a outcome \<Rightarrow> 'a outcome" where
  "on_world f (Returns r w) = Returns r (f w)"
| "on_world f (Aborts w) = Aborts (f w)"

text \<open>The lines \<open>wrong! pt\<close> printed so far.\<close>

definition wrong_pt_lines :: "gst_world \<Rightarrow> nat" where
  "wrong_pt_lines w = length (filter (\<lambda>l. l = ''wrong! pt'' @ [newline]) (w_stdout w))"

subsection \<open>The command line, the bus watch and \<open>main\<close>\<close>

text \<open>
  The static \<open>options\<close> (lines 55 to 60), zero-initialised, and the state of the process
  that \<open>main\<close> works on: the options, the local \<open>help\<close>, what was written to the
  standard error stream, the GLib and GStreamer calls made, whether \<open>app.pipeline\<close> is
  set, the state of the pipeline and whether the main loop is running.
\<close>

record options =
  opt_uri :: "string option"
  opt_user :: "string option"
  opt_resource :: "string option"

datatype GError =
    G_OPTION_ERROR_UNKNOWN_OPTION string
  | G_OPTION_ERROR_FAILED
  | GST_PARSE_ERROR

text \<open>
  A line on the standard error stream: a text of the source, the message of a
  \<open>GError\<close>, or the help text of \<open>g_option_context_get_help\<close>.
\<close>

datatype err_line = Err_text string | Err_message GError | Err_help_text

datatype main_call =
    Gst_init
  | G_main_loop_new
  | Gst_parse_launch string
  | Gst_bus_add_watch
  | G_object_set_srtsrc "string option" "string option"
  | G_signal_connect string
  | Gst_element_set_state GstState
  | G_main_loop_run
  | G_main_loop_quit
  | Gst_object_unref
  | G_main_loop_unref

record proc =
  p_options :: options
  p_help :: bool
  p_stderr :: "err_line list"
  p_calls :: "main_call list"
  p_pipeline :: bool
  p_pipeline_state :: GstState
  p_loop_running :: bool

definition initial_proc :: proc where
  "initial_proc =
     \<lparr>p_options = \<lparr>opt_uri = None, opt_user = None, opt_resource = None\<rparr>,
      p_help = False, p_stderr = [], p_calls = [], p_pipeline = False,
      p_pipeline_state = GST_STATE_NULL, p_loop_running = False\<rparr>"

definition g_printerr :: "err_line \<Rightarrow> proc \<Rightarrow> proc" where
  "g_printerr l p = p\<lparr>p_stderr := p_stderr p @ [l]\<rparr>"

definition call :: "main_call \<Rightarrow> proc \<Rightarrow> proc" where
  "call c p = p\<lparr>p_calls := p_calls p @ [c]\<rparr>"

subsubsection \<open>\<open>_parse_rest_arg_cb\<close> (lines 68 to 85)\<close>

definition parse_rest_arg_cb :: "string \<Rightarrow> proc \<Rightarrow> bool \<times> proc" where
  "parse_rest_arg_cb v p =
     (if non_null (opt_uri (p_options p)) then
        (False, g_printerr (Err_text (''URI has already been set.'' @ [newline])) p)
      else if \<not> g_str_has_prefix v ''srt://'' then
        (False, g_printerr (Err_text (''Invalid SRT uri: '' @ v @ [newline])) p)
      else (True, p\<lparr>p_options := (p_options p)\<lparr>opt_uri := Some v\<rparr>\<rparr>))"

subsubsection \<open>\<open>g_option_context_parse\<close> with the entries of \<open>main\<close> (lines 290 to 305)\<close>

text \<open>
  The command line as GLib matches it against the entries of \<open>main\<close>: \<open>--user\<close> or
  \<open>-u\<close> with its value, \<open>--resource\<close> or \<open>-r\<close> with its value, \<open>--help\<close> or \<open>-h\<close>,
  a remaining (positional) argument, and an argument that GLib rejects itself (an
  unknown option, or an option without its value).
\<close>

datatype cli_arg =
    Arg_user string
  | Arg_resource string
  | Arg_help
  | Arg_rest string
  | Arg_unknown string

text \<open>
  GLib handles the arguments in order: a string entry stores its value, the flag entry
  sets \<open>help\<close>, a remaining argument is handed to the callback of the
  \<open>G_OPTION_REMAINING\<close> entry. Parsing stops with an error at the first argument that
  GLib rejects or for which the callback returns FALSE; the callback sets no error, so
  GLib sets one. The result is the error, if any: the call returns FALSE exactly then.
\<close>

fun g_option_context_parse :: "cli_arg list \<Rightarrow> proc \<Rightarrow> GError option \<times> proc" where
  "g_option_context_parse [] p = (None, p)"
| "g_option_context_parse (Arg_user v # as) p =
     g_option_context_parse as (p\<lparr>p_options := (p_options p)\<lparr>opt_user := Some v\<rparr>\<rparr>)"
| "g_option_context_parse (Arg_resource v # as) p =
     g_option_context_parse as (p\<lparr>p_options := (p_options p)\<lparr>opt_resource := Some v\<rparr>\<rparr>)"
| "g_option_context_parse (Arg_help # as) p = g_option_context_parse as (p\<lparr>p_help := True\<rparr>)"
| "g_option_context_parse (Arg_rest v # as) p =
     (case parse_rest_arg_cb v p of
        (True, p') \<Rightarrow> g_option_context_parse as p'
      | (False, p') \<Rightarrow> (Some G_OPTION_ERROR_FAILED, p'))"
| "g_option_context_parse (Arg_unknown s # as) p = (Some (G_OPTION_ERROR_UNKNOWN_OPTION s), p)"

subsubsection \<open>\<open>_bus_watch\<close> (lines 115 to 129)\<close>

datatype GstMessageType = GST_MESSAGE_EOS | GST_MESSAGE_ERROR | GST_MESSAGE_OTHER nat

definition g_main_loop_quit :: "proc \<Rightarrow> proc" where
  "g_main_loop_quit p = call G_main_loop_quit (p\<lparr>p_loop_running := False\<rparr>)"

text \<open>The result is the \<open>gboolean\<close> returned: \<open>G_SOURCE_CONTINUE\<close> is TRUE.\<close>

fun bus_watch :: "GstMessageType \<Rightarrow> proc \<Rightarrow> bool \<times> proc" where
  "bus_watch GST_MESSAGE_EOS p =
     (True, g_main_loop_quit (g_printerr (Err_text (''Terminated'' @ [newline])) p))"
| "bus_watch GST_MESSAGE_ERROR p =
     (True, g_main_loop_quit (g_printerr (Err_text (''Terminated'' @ [newline])) p))"
| "bus_watch (GST_MESSAGE_OTHER t) p = (True, p)"

text \<open>
  \<open>g_main_loop_run\<close> over the messages that arrive on the bus, in order: the watch is
  called for a message, and the loop returns once it is no longer running. A watch
  that returned FALSE would be removed and see no further message. With no message
  left the loop waits for ever: the result is \<open>None\<close>.
\<close>

fun dispatch_messages :: "GstMessageType list \<Rightarrow> proc \<Rightarrow> proc option" where
  "dispatch_messages [] p = None"
| "dispatch_messages (m # ms) p =
     (case bus_watch m p of
        (continue, p') \<Rightarrow>
          if \<not> p_loop_running p' then Some p'
          else if continue then dispatch_messages ms p'
          else None)"

definition g_main_loop_run :: "GstMessageType list \<Rightarrow> proc \<Rightarrow> proc option" where
  "g_main_loop_run ms p = dispatch_messages ms (call G_main_loop_run (p\<lparr>p_loop_running := True\<rparr>))"

subsubsection \<open>\<open>build_recv_pipeline\<close> (lines 249 to 278)\<close>

definition recv_description :: string where
  "recv_description = ''srtsrc name=srtsrc ! queue ! rtpptdemux name=rtpdemux ''"

text \<open>
  Whether \<open>gst_parse_launch\<close> can build the receiving pipeline is the environment's
  (\<open>launch_ok\<close>); the result is the error that it set, or none when the pipeline was
  built.
\<close>

definition build_recv_pipeline ::
  "string option \<Rightarrow> string option \<Rightarrow> bool \<Rightarrow> proc \<Rightarrow> GError option \<times> proc" where
  "build_recv_pipeline uri streamid launch_ok p0 =
     (let p1 = call (Gst_parse_launch recv_description) p0
      in if \<not> launch_ok then (Some GST_PARSE_ERROR, p1)
         else
           (let p2 = call Gst_bus_add_watch p1;
                p3 = call (G_object_set_srtsrc uri streamid) p2;
                p4 = call (G_signal_connect ''new-payload-type'') p3;
                p5 = call (G_signal_connect ''request-pt-map'') p4
            in (None, p5\<lparr>p_pipeline := True\<rparr>)))"

subsubsection \<open>\<open>main\<close> (lines 280 to 344)\<close>

definition gst_element_set_state :: "GstState \<Rightarrow> proc \<Rightarrow> proc" where
  "gst_element_set_state s p = call (Gst_element_set_state s) (p\<lparr>p_pipeline_state := s\<rparr>)"

text \<open>
  The result of \<open>main\<close> is the value it returns and the state of the process then, or
  \<open>None\<close> when the main loop never returns.
\<close>

definition main :: "cli_arg list \<Rightarrow> bool \<Rightarrow> GstMessageType list \<Rightarrow> (int \<times> proc) option" where
  "main argv launch_ok msgs =
     (case g_option_context_parse argv initial_proc of
        (Some e, p1) \<Rightarrow> Some (- 1, g_printerr (Err_message e) p1)
      | (None, p1) \<Rightarrow>
          if p_help p1 \<or> Option.is_none (opt_uri (p_options p1))
          then Some (- 1, g_printerr Err_help_text p1)
          else
            (let p2 = call Gst_init p1;
                 p3 = call G_main_loop_new p2;
                 streamid = build_streamid (opt_user (p_options p3)) (opt_resource (p_options p3))
             in case build_recv_pipeline (opt_uri (p_options p3)) streamid launch_ok p3 of
                  (Some e, p4) \<Rightarrow> Some (- 1, g_printerr (Err_message e) p4)
                | (None, p4) \<Rightarrow>
                    (let p5 = gst_element_set_state GST_STATE_PLAYING p4
                     in case g_main_loop_run msgs p5 of
                          None \<Rightarrow> None
                        | Some p6 \<Rightarrow>
                            Some (0, call G_main_loop_unref
                                       (call Gst_object_unref
                                          (gst_element_set_state GST_STATE_NULL p6))))))"

text \<open>Reading a command line and a run of \<open>main\<close>.\<close>

fun is_rest :: "cli_arg \<Rightarrow> bool" where
  "is_rest (Arg_rest v) = True"
| "is_rest a = False"

fun is_unknown :: "cli_arg \<Rightarrow> bool" where
  "is_unknown (Arg_unknown s) = True"
| "is_unknown a = False"

text \<open>A remaining argument that does not start with \<open>srt://\<close>.\<close>

fun is_bad_rest :: "cli_arg \<Rightarrow> bool" where
  "is_bad_rest (Arg_rest v) = (\<not> g_str_has_prefix v ''srt://'')"
| "is_bad_rest a = False"

fun is_terminal :: "GstMessageType \<Rightarrow> bool" where
  "is_terminal GST_MESSAGE_EOS = True"
| "is_terminal GST_MESSAGE_ERROR = True"
| "is_terminal (GST_MESSAGE_OTHER t) = False"

text \<open>No graph was built: GStreamer was not initialised and no pipeline was launched.\<close>

definition no_graph :: "proc \<Rightarrow> bool" where
  "no_graph p = (p_calls p = [] \<and> \<not> p_pipeline p)"

section \<open>Properties\<close>

subsection \<open>The stream identity\<close>

lemma build_streamid_cases:
  "build_streamid None None = None"
  "build_streamid (Some u) None = Some (''#!::u='' @ u)"
  "build_streamid None (Some r) = Some (''#!::r='' @ r)"
  "build_streamid (Some u) (Some r) = Some (''#!::u='' @ u @ '',r='' @ r)"
  by (simp_all add: build_streamid_def g_strconcat_def non_null_def)

text \<open>
  C3, as the claim states it: with both the user and the resource absent the builder
  returns the empty string. The code returns the NULL pointer there, which is not an
  empty string.
\<close>

theorem build_streamid_absent_not_empty:
  "build_streamid None None \<noteq> Some ''''"
  by (simp add: build_streamid_cases)

text \<open>
  C3, amended: with both arguments absent the builder returns no token (NULL); with only
  the user \<open>#!::u=<user>\<close>; with only the resource \<open>#!::r=<resource>\<close>; with both
  \<open>#!::u=<user>,r=<resource>\<close>. Every combination of arguments has a result.
\<close>

theorem build_streamid_token:
  "build_streamid None None = None
   \<and> build_streamid (Some u) None = Some (''#!::u='' @ u)
   \<and> build_streamid None (Some r) = Some (''#!::r='' @ r)
   \<and> build_streamid (Some u) (Some r) = Some (''#!::u='' @ u @ '',r='' @ r)"
  by (simp add: build_streamid_cases)

theorem build_streamid_token_witness:
  "build_streamid None None = None
   \<and> build_streamid (Some ''alice'') None = Some ''#!::u=alice''
   \<and> build_streamid None (Some ''r1'') = Some ''#!::r=r1''
   \<and> build_streamid (Some ''alice'') (Some ''r1'') = Some ''#!::u=alice,r=r1''"
  using build_streamid_token [of "''alice''" "''r1''"] by simp

subsection \<open>The payload type resolver\<close>

lemma caps_of_h264_string:
  "gst_caps_from_string
     ''application/x-rtp, encoding-name=(string)H264, media=(string)video, clock-rate=(int)90000''
   = Some \<lparr>caps_name = ''application/x-rtp'',
            caps_fields = [(''encoding-name'', ''string'', ''H264''),
                           (''media'', ''string'', ''video''),
                           (''clock-rate'', ''int'', ''90000'')]\<rparr>"
  by code_simp

lemma caps_of_gst_string:
  "gst_caps_from_string
     ''application/x-rtp, encoding-name=(string)X-GST, media=(string)application, clock-rate=(int)90000''
   = Some \<lparr>caps_name = ''application/x-rtp'',
            caps_fields = [(''encoding-name'', ''string'', ''X-GST''),
                           (''media'', ''string'', ''application''),
                           (''clock-rate'', ''int'', ''90000'')]\<rparr>"
  by code_simp

lemma request_pt_map_cb_96:
  "\<exists>c. request_pt_map_cb 96 = ([], Some c) \<and> is_h264_video_caps c
       \<and> \<not> is_application_data_caps c"
  by (simp add: request_pt_map_cb_def caps_of_h264_string is_h264_video_caps_def
      is_application_data_caps_def caps_field_def)

lemma request_pt_map_cb_99:
  "\<exists>c. request_pt_map_cb 99 = ([], Some c) \<and> is_application_data_caps c
       \<and> \<not> is_h264_video_caps c"
  by (simp add: request_pt_map_cb_def caps_of_gst_string is_h264_video_caps_def
      is_application_data_caps_def caps_field_def)

lemma request_pt_map_cb_other:
  "pt \<noteq> 96 \<Longrightarrow> pt \<noteq> 99 \<Longrightarrow> request_pt_map_cb pt = ([''wrong! pt'' @ [newline]], None)"
  by (simp add: request_pt_map_cb_def)

text \<open>
  C4: the resolver returns an H.264 video descriptor exactly for payload type 96, an
  application-data descriptor exactly for payload type 99, and for every other payload
  type it returns no descriptor, having printed \<open>wrong! pt\<close>; it prints nothing for 96
  and 99.
\<close>

theorem request_pt_map_cb_resolves:
  "((\<exists>c. request_pt_map_cb pt = ([], Some c) \<and> is_h264_video_caps c) = (pt = 96))
   \<and> ((\<exists>c. request_pt_map_cb pt = ([], Some c) \<and> is_application_data_caps c) = (pt = 99))
   \<and> ((request_pt_map_cb pt = ([''wrong! pt'' @ [newline]], None)) = (pt \<noteq> 96 \<and> pt \<noteq> 99))
   \<and> ((snd (request_pt_map_cb pt) = None) = (pt \<noteq> 96 \<and> pt \<noteq> 99))"
proof -
  consider (video) "pt = 96" | (app) "pt = 99" | (other) "pt \<noteq> 96" "pt \<noteq> 99"
    by blast
  then show ?thesis
  proof cases
    case video
    from request_pt_map_cb_96 obtain c where
      c: "request_pt_map_cb 96 = ([], Some c)" "is_h264_video_caps c"
         "\<not> is_application_data_caps c"
      by blast
    with video show ?thesis by auto
  next
    case app
    from request_pt_map_cb_99 obtain c where
      c: "request_pt_map_cb 99 = ([], Some c)" "is_application_data_caps c"
         "\<not> is_h264_video_caps c"
      by blast
    with app show ?thesis by auto
  next
    case other
    then show ?thesis by (simp add: request_pt_map_cb_other)
  qed
qed

subsection \<open>What the GStreamer calls and the two probe callbacks do to the graph\<close>

lemma map_at_length [simp]: "map_at (length xs) f (xs @ [x]) = xs @ [f x]"
  by (simp add: map_at_def)

lemma nth_opt_length [simp]: "nth_opt (xs @ [x]) (length xs) = Some x"
  by (simp add: nth_opt_def)

lemma gstdepay_elements:
  "parse_description gstdepay_description
   = [\<lparr>factory = ''queue'', properties = [(''name'', ''q'')]\<rparr>,
      \<lparr>factory = ''rtpgstdepay'', properties = [(''name'', ''depay'')]\<rparr>,
      \<lparr>factory = ''identity'', properties = [(''dump'', ''true'')]\<rparr>,
      \<lparr>factory = ''fakesink'', properties = [(''sync'', ''false'')]\<rparr>]"
  unfolding gstdepay_description_def by code_simp

lemma video_elements:
  "parse_description video_description
   = [\<lparr>factory = ''queue'', properties = [(''name'', ''q'')]\<rparr>,
      \<lparr>factory = ''rtph264depay'', properties = []\<rparr>,
      \<lparr>factory = ''h264parse'', properties = []\<rparr>,
      \<lparr>factory = ''decodebin'', properties = []\<rparr>,
      \<lparr>factory = ''autovideosink'', properties = [(''async'', ''true'')]\<rparr>]"
  unfolding video_description_def by code_simp

lemma gst_parse_launch_eq:
  "gst_parse_launch d w =
     (length (w_bins w),
      w\<lparr>w_calls := w_calls w @ [Call_parse_launch d (length (w_bins w))],
        w_bins := w_bins w @ [\<lparr>bin_elements = parse_description d, bin_state = GST_STATE_NULL,
                               bin_in_pipeline = False, bin_pads = []\<rparr>]\<rparr>)"
  by (simp add: gst_parse_launch_def log_call_def Let_def)

lemma gst_bin_add_eq:
  "gst_bin_add b w =
     w\<lparr>w_calls := w_calls w @ [Call_bin_add b],
       w_bins := map_at b (\<lambda>x. x\<lparr>bin_in_pipeline := True\<rparr>) (w_bins w)\<rparr>"
  by (simp add: gst_bin_add_def log_call_def update_bin_def)

lemma gst_element_sync_state_with_parent_eq:
  "gst_element_sync_state_with_parent b w =
     w\<lparr>w_calls := w_calls w @ [Call_sync_state_with_parent b],
       w_bins := map_at b (\<lambda>x. if bin_in_pipeline x then x\<lparr>bin_state := w_pipeline_state w\<rparr> else x)
                   (w_bins w)\<rparr>"
  by (simp add: gst_element_sync_state_with_parent_def log_call_def update_bin_def)

lemma gst_ghost_pad_new_eq:
  "gst_ghost_pad_new t w =
     (length (w_ghost_pads w),
      w\<lparr>w_calls := w_calls w @ [Call_ghost_pad_new (length (w_ghost_pads w))],
        w_ghost_pads := w_ghost_pads w @ [\<lparr>gp_target = t, gp_active = False\<rparr>]\<rparr>)"
  by (simp add: gst_ghost_pad_new_def log_call_def Let_def)

lemma gst_element_add_pad_eq:
  "gst_element_add_pad b g w =
     w\<lparr>w_calls := w_calls w @ [Call_element_add_pad b g],
       w_bins := map_at b (\<lambda>x. x\<lparr>bin_pads := bin_pads x @ [g]\<rparr>) (w_bins w)\<rparr>"
  by (simp add: gst_element_add_pad_def log_call_def update_bin_def)

lemma gst_pad_set_active_eq:
  "gst_pad_set_active g a w =
     w\<lparr>w_calls := w_calls w @ [Call_pad_set_active g a],
       w_ghost_pads := map_at g (\<lambda>x. x\<lparr>gp_active := a\<rparr>) (w_ghost_pads w)\<rparr>"
  by (simp add: gst_pad_set_active_def log_call_def update_ghost_pad_def)

lemma gst_pad_link_eq:
  "gst_pad_link pad g w =
     (link_answer pad w,
      w\<lparr>w_calls := w_calls w @ [Call_pad_link pad g (link_answer pad w)],
        w_links := (if link_answer pad w = GST_PAD_LINK_OK then w_links w @ [(pad, g)]
                    else w_links w)\<rparr>)"
  by (simp add: gst_pad_link_def log_call_def Let_def)

lemma get_q:
  "gst_bin_get_by_name (length bs) ''q''
     (w\<lparr>w_bins := bs @ [\<lparr>bin_elements = parse_description gstdepay_description, bin_state = s, bin_in_pipeline = p, bin_pads = ps\<rparr>]\<rparr>) = Some (length bs, ''q'')"
  "gst_bin_get_by_name (length bs) ''q''
     (w\<lparr>w_bins := bs @ [\<lparr>bin_elements = parse_description video_description, bin_state = s, bin_in_pipeline = p, bin_pads = ps\<rparr>]\<rparr>) = Some (length bs, ''q'')"
  by (simp_all add: gst_bin_get_by_name_def gstdepay_elements video_elements element_name_def)

lemma link_answer_frame [simp]:
  "link_answer pad (w\<lparr>w_calls := c\<rparr>) = link_answer pad w"
  "link_answer pad (w\<lparr>w_bins := b\<rparr>) = link_answer pad w"
  "link_answer pad (w\<lparr>w_ghost_pads := g\<rparr>) = link_answer pad w"
  "link_answer pad (w\<lparr>w_stdout := out\<rparr>) = link_answer pad w"
  "link_answer pad (w\<lparr>w_seen := sn\<rparr>) = link_answer pad w"
  "link_answer pad (w\<lparr>w_src_pads := sp\<rparr>) = link_answer pad w"
  "link_answer pad (w\<lparr>w_pushed := pu\<rparr>) = link_answer pad w"
  by (simp_all add: link_answer_def)

lemma link_gstdepay_cb_eq:
  "link_gstdepay_cb pad w =
     Returns GST_PAD_PROBE_REMOVE
       (w\<lparr>w_calls := w_calls w @
            [Call_parse_launch gstdepay_description (length (w_bins w)),
             Call_bin_add (length (w_bins w)),
             Call_sync_state_with_parent (length (w_bins w)),
             Call_ghost_pad_new (length (w_ghost_pads w)),
             Call_element_add_pad (length (w_bins w)) (length (w_ghost_pads w)),
             Call_pad_set_active (length (w_ghost_pads w)) True,
             Call_pad_link pad (length (w_ghost_pads w)) (link_answer pad w)],
          w_bins := w_bins w @
            [\<lparr>bin_elements = parse_description gstdepay_description,
              bin_state = w_pipeline_state w, bin_in_pipeline = True,
              bin_pads = [length (w_ghost_pads w)]\<rparr>],
          w_ghost_pads := w_ghost_pads w @
            [\<lparr>gp_target = Some (length (w_bins w), ''q'', ''sink''), gp_active = True\<rparr>],
          w_links := (if link_answer pad w = GST_PAD_LINK_OK
                      then w_links w @ [(pad, length (w_ghost_pads w))] else w_links w)\<rparr>)"
  by (simp add: link_gstdepay_cb_def gst_parse_launch_eq gst_bin_add_eq
    gst_element_get_static_pad_def gst_element_sync_state_with_parent_eq gst_ghost_pad_new_eq
    gst_element_add_pad_eq gst_pad_set_active_eq gst_pad_link_eq get_q Let_def)

lemma link_cb_ok:
  "link_answer pad w = GST_PAD_LINK_OK \<Longrightarrow>
   link_cb pad w =
     Returns GST_PAD_PROBE_REMOVE
       (w\<lparr>w_stdout := w_stdout w @
            [''pad link probe : '' @ GST_PAD_NAME pad @ [newline],
             ''linking done for video'' @ [newline]],
          w_calls := w_calls w @
            [Call_parse_launch video_description (length (w_bins w)),
             Call_bin_add (length (w_bins w)),
             Call_ghost_pad_new (length (w_ghost_pads w)),
             Call_element_add_pad (length (w_bins w)) (length (w_ghost_pads w)),
             Call_pad_link pad (length (w_ghost_pads w)) GST_PAD_LINK_OK,
             Call_pad_set_active (length (w_ghost_pads w)) True,
             Call_sync_state_with_parent (length (w_bins w))],
          w_bins := w_bins w @
            [\<lparr>bin_elements = parse_description video_description,
              bin_state = w_pipeline_state w, bin_in_pipeline = True,
              bin_pads = [length (w_ghost_pads w)]\<rparr>],
          w_ghost_pads := w_ghost_pads w @
            [\<lparr>gp_target = Some (length (w_bins w), ''q'', ''sink''), gp_active = True\<rparr>],
          w_links := w_links w @ [(pad, length (w_ghost_pads w))]\<rparr>)"
  by (simp add: link_cb_def g_print_def gst_parse_launch_eq gst_bin_add_eq
    gst_element_get_static_pad_def gst_element_sync_state_with_parent_eq gst_ghost_pad_new_eq
    gst_element_add_pad_eq gst_pad_set_active_eq gst_pad_link_eq get_q Let_def)

lemma link_cb_fail:
  "link_answer pad w \<noteq> GST_PAD_LINK_OK \<Longrightarrow>
   link_cb pad w =
     Aborts
       (w\<lparr>w_stdout := w_stdout w @ [''pad link probe : '' @ GST_PAD_NAME pad @ [newline]],
          w_stderr := w_stderr w @ [''failed to link pad to gpad''],
          w_calls := w_calls w @
            [Call_parse_launch video_description (length (w_bins w)),
             Call_bin_add (length (w_bins w)),
             Call_ghost_pad_new (length (w_ghost_pads w)),
             Call_element_add_pad (length (w_bins w)) (length (w_ghost_pads w)),
             Call_pad_link pad (length (w_ghost_pads w)) (link_answer pad w)],
          w_bins := w_bins w @
            [\<lparr>bin_elements = parse_description video_description,
              bin_state = GST_STATE_NULL, bin_in_pipeline = True,
              bin_pads = [length (w_ghost_pads w)]\<rparr>],
          w_ghost_pads := w_ghost_pads w @
            [\<lparr>gp_target = Some (length (w_bins w), ''q'', ''sink''), gp_active = False\<rparr>]\<rparr>)"
  by (simp add: link_cb_def g_print_def g_error_def gst_parse_launch_eq gst_bin_add_eq
    gst_element_get_static_pad_def gst_element_sync_state_with_parent_eq gst_ghost_pad_new_eq
    gst_element_add_pad_eq gst_pad_set_active_eq gst_pad_link_eq get_q Let_def)

subsection \<open>What the attachment handler does to the graph\<close>

lemma map_filter_append [simp]:
  "List.map_filter f (xs @ ys) = List.map_filter f xs @ List.map_filter f ys"
  by (simp add: List.map_filter_def)

lemma show_int_99: "show_int (sint (99 :: 32 word)) = ''99''"
  by code_simp

lemma new_payload_type_cb_other:
  "pt \<noteq> 96 \<Longrightarrow> pt \<noteq> 99 \<Longrightarrow>
   new_payload_type_cb pt pad w =
     Returns () (w\<lparr>w_stdout := w_stdout w @
                   [''new payload type pt: '' @ show_int (sint pt) @ [newline]]\<rparr>)"
  by (simp add: new_payload_type_cb_def g_print_def)

lemma new_payload_type_cb_99:
  "new_payload_type_cb 99 pad w =
     Returns ()
       (w\<lparr>w_stdout := w_stdout w @ [''new payload type pt: '' @ show_int (sint (99 :: 32 word)) @ [newline]],
          w_calls := w_calls w @
            [Call_pad_add_probe pad Link_gstdepay_cb,
             Call_probe_cb pad Link_gstdepay_cb,
             Call_parse_launch gstdepay_description (length (w_bins w)),
             Call_bin_add (length (w_bins w)),
             Call_sync_state_with_parent (length (w_bins w)),
             Call_ghost_pad_new (length (w_ghost_pads w)),
             Call_element_add_pad (length (w_bins w)) (length (w_ghost_pads w)),
             Call_pad_set_active (length (w_ghost_pads w)) True,
             Call_pad_link pad (length (w_ghost_pads w)) (link_answer pad w)],
          w_bins := w_bins w @
            [\<lparr>bin_elements = parse_description gstdepay_description,
              bin_state = w_pipeline_state w, bin_in_pipeline = True,
              bin_pads = [length (w_ghost_pads w)]\<rparr>],
          w_ghost_pads := w_ghost_pads w @
            [\<lparr>gp_target = Some (length (w_bins w), ''q'', ''sink''), gp_active = True\<rparr>],
          w_links := (if link_answer pad w = GST_PAD_LINK_OK
                      then w_links w @ [(pad, length (w_ghost_pads w))] else w_links w)\<rparr>)"
  by (simp add: new_payload_type_cb_def g_print_def gst_pad_add_probe_def log_call_def
      link_gstdepay_cb_eq)

lemma new_payload_type_cb_96_ok:
  "link_answer pad w = GST_PAD_LINK_OK \<Longrightarrow>
   new_payload_type_cb 96 pad w =
     Returns ()
       (w\<lparr>w_stdout := w_stdout w @
            [''new payload type pt: '' @ show_int (sint (96 :: 32 word)) @ [newline],
             ''pad link probe : '' @ GST_PAD_NAME pad @ [newline],
             ''linking done for video'' @ [newline]],
          w_calls := w_calls w @
            [Call_pad_add_probe pad Link_cb,
             Call_probe_cb pad Link_cb,
             Call_parse_launch video_description (length (w_bins w)),
             Call_bin_add (length (w_bins w)),
             Call_ghost_pad_new (length (w_ghost_pads w)),
             Call_element_add_pad (length (w_bins w)) (length (w_ghost_pads w)),
             Call_pad_link pad (length (w_ghost_pads w)) GST_PAD_LINK_OK,
             Call_pad_set_active (length (w_ghost_pads w)) True,
             Call_sync_state_with_parent (length (w_bins w))],
          w_bins := w_bins w @
            [\<lparr>bin_elements = parse_description video_description,
              bin_state = w_pipeline_state w, bin_in_pipeline = True,
              bin_pads = [length (w_ghost_pads w)]\<rparr>],
          w_ghost_pads := w_ghost_pads w @
            [\<lparr>gp_target = Some (length (w_bins w), ''q'', ''sink''), gp_active = True\<rparr>],
          w_links := w_links w @ [(pad, length (w_ghost_pads w))]\<rparr>)"
  by (simp add: new_payload_type_cb_def g_print_def gst_pad_add_probe_def log_call_def
      link_cb_ok)

lemma new_payload_type_cb_96_fail:
  "link_answer pad w \<noteq> GST_PAD_LINK_OK \<Longrightarrow>
   new_payload_type_cb 96 pad w =
     Aborts
       (w\<lparr>w_stdout := w_stdout w @
            [''new payload type pt: '' @ show_int (sint (96 :: 32 word)) @ [newline],
             ''pad link probe : '' @ GST_PAD_NAME pad @ [newline]],
          w_stderr := w_stderr w @ [''failed to link pad to gpad''],
          w_calls := w_calls w @
            [Call_pad_add_probe pad Link_cb,
             Call_probe_cb pad Link_cb,
             Call_parse_launch video_description (length (w_bins w)),
             Call_bin_add (length (w_bins w)),
             Call_ghost_pad_new (length (w_ghost_pads w)),
             Call_element_add_pad (length (w_bins w)) (length (w_ghost_pads w)),
             Call_pad_link pad (length (w_ghost_pads w)) (link_answer pad w)],
          w_bins := w_bins w @
            [\<lparr>bin_elements = parse_description video_description,
              bin_state = GST_STATE_NULL, bin_in_pipeline = True,
              bin_pads = [length (w_ghost_pads w)]\<rparr>],
          w_ghost_pads := w_ghost_pads w @
            [\<lparr>gp_target = Some (length (w_bins w), ''q'', ''sink''), gp_active = False\<rparr>]\<rparr>)"
  by (simp add: new_payload_type_cb_def g_print_def gst_pad_add_probe_def log_call_def
      link_cb_fail)

subsection \<open>The order of linking and synchronizing\<close>

lemma link_cb_syncs_after_link:
  "link_answer pad w = GST_PAD_LINK_OK \<Longrightarrow> sync_only_after_link (calls_made (link_cb pad) w)"
  by (simp add: calls_made_def link_cb_ok sync_only_after_link_def)

text \<open>
  C2 fails for the application-data branch (payload type 99): on every pad and in every
  state of the graph, \<open>_link_gstdepay_cb\<close> makes its calls in the order below, with
  \<open>gst_element_sync_state_with_parent\<close> before the ghost pad exists and before
  \<open>gst_pad_link\<close>; the state of the branch is not synchronized after linking.
  \<open>_link_cb\<close> (payload type 96) links first and synchronizes afterwards.
\<close>

theorem link_gstdepay_cb_syncs_before_link:
  "calls_made (link_gstdepay_cb pad) w =
     [Call_parse_launch gstdepay_description (length (w_bins w)),
      Call_bin_add (length (w_bins w)),
      Call_sync_state_with_parent (length (w_bins w)),
      Call_ghost_pad_new (length (w_ghost_pads w)),
      Call_element_add_pad (length (w_bins w)) (length (w_ghost_pads w)),
      Call_pad_set_active (length (w_ghost_pads w)) True,
      Call_pad_link pad (length (w_ghost_pads w)) (link_answer pad w)]
   \<and> \<not> sync_only_after_link (calls_made (link_gstdepay_cb pad) w)"
  by (simp add: calls_made_def link_gstdepay_cb_eq sync_only_after_link_def)

subsection \<open>The stages of a branch\<close>

lemma factories_video:
  "map factory (parse_description video_description)
   = [''queue'', ''rtph264depay'', ''h264parse'', ''decodebin'', ''autovideosink'']"
  by (simp add: video_elements)

lemma factories_gstdepay:
  "map factory (parse_description gstdepay_description)
   = [''queue'', ''rtpgstdepay'', ''identity'', ''fakesink'']"
  by (simp add: gstdepay_elements)

lemma stages_video:
  "stages_of (parse_description video_description)
   = [Buffering_queue, Rtp_depacketizer, Format_parser, Decoder, Display_sink]"
  by (simp add: video_elements stage_of_def)

lemma stages_gstdepay:
  "stages_of (parse_description gstdepay_description)
   = [Buffering_queue, Generic_rtp_depacketizer, Consumption_sink]"
  by (simp add: gstdepay_elements stage_of_def)

text \<open>
  C6: whatever the state of the graph, the attachment handler builds for payload type
  96 one branch of the stages buffering queue, RTP depacketizer, format parser, decoder,
  display sink; for payload type 99 one branch of the stages buffering queue, generic
  RTP depacketizer, consumption sink (the \<open>identity dump=true\<close> element and the
  \<open>fakesink\<close> behind it); and for any other payload type it builds nothing and runs no
  branch-building callback.
\<close>

theorem branch_stages_built:
  "branch_stages (final_world (new_payload_type_cb pt pad w)) =
     branch_stages w @
       (if pt = 96 then [[Buffering_queue, Rtp_depacketizer, Format_parser, Decoder, Display_sink]]
        else if pt = 99 then
          [[Buffering_queue, Generic_rtp_depacketizer, Consumption_sink]]
        else [])
   \<and> builder_runs (final_world (new_payload_type_cb pt pad w)) =
       builder_runs w @ (if pt = 96 \<or> pt = 99 then [pad] else [])"
proof -
  consider (video_ok) "pt = 96" "link_answer pad w = GST_PAD_LINK_OK"
    | (video_fail) "pt = 96" "link_answer pad w \<noteq> GST_PAD_LINK_OK"
    | (app) "pt = 99" | (other) "pt \<noteq> 96" "pt \<noteq> 99"
    by blast
  then show ?thesis
  proof cases
    case video_ok
    then show ?thesis
      by (simp add: new_payload_type_cb_96_ok branch_stages_def builder_runs_def stages_video
          List.map_filter_simps)
  next
    case video_fail
    then show ?thesis
      by (simp add: new_payload_type_cb_96_fail branch_stages_def builder_runs_def stages_video
          List.map_filter_simps)
  next
    case app
    then show ?thesis
      by (simp add: new_payload_type_cb_99 branch_stages_def builder_runs_def stages_gstdepay
          List.map_filter_simps)
  next
    case other
    then show ?thesis
      by (simp add: new_payload_type_cb_other branch_stages_def builder_runs_def)
  qed
qed

theorem branch_stages_built_witness:
  "branch_stages (final_world (new_payload_type_cb 96 96
      (initial_world (\<lambda>pad. GST_PAD_LINK_OK) GST_STATE_PLAYING)))
     = [[Buffering_queue, Rtp_depacketizer, Format_parser, Decoder, Display_sink]]
   \<and> branch_stages (final_world (new_payload_type_cb 99 99
      (initial_world (\<lambda>pad. GST_PAD_LINK_OK) GST_STATE_PLAYING)))
     = [[Buffering_queue, Generic_rtp_depacketizer, Consumption_sink]]
   \<and> branch_stages (final_world (new_payload_type_cb 5 5
      (initial_world (\<lambda>pad. GST_PAD_LINK_OK) GST_STATE_PLAYING))) = []
   \<and> builder_runs (final_world (new_payload_type_cb 5 5
      (initial_world (\<lambda>pad. GST_PAD_LINK_OK) GST_STATE_PLAYING))) = []"
  using branch_stages_built [of 96 96 "initial_world (\<lambda>pad. GST_PAD_LINK_OK) GST_STATE_PLAYING"]
    branch_stages_built [of 99 99 "initial_world (\<lambda>pad. GST_PAD_LINK_OK) GST_STATE_PLAYING"]
    branch_stages_built [of 5 5 "initial_world (\<lambda>pad. GST_PAD_LINK_OK) GST_STATE_PLAYING"]
  by (simp add: branch_stages_def builder_runs_def initial_world_def List.map_filter_simps)

subsection \<open>A failure to link\<close>

lemma link_cb_aborts_on_link_failure:
  "link_answer pad w \<noteq> GST_PAD_LINK_OK \<Longrightarrow>
   aborted (link_cb pad w)
   \<and> w_stderr (final_world (link_cb pad w)) = w_stderr w @ [''failed to link pad to gpad'']"
  by (simp add: link_cb_fail)

text \<open>
  C7 fails for the application-data branch: \<open>_link_gstdepay_cb\<close> never aborts and
  never reports an error, whatever \<open>gst_pad_link\<close> answers. At a pad whose link is
  refused it returns \<open>GST_PAD_PROBE_REMOVE\<close> as usual, with the new bin in the
  pipeline and the port left without a link, where \<open>_link_cb\<close> aborts the process.
\<close>

theorem link_gstdepay_cb_ignores_link_failure:
  "\<not> aborted (link_gstdepay_cb pad w)
   \<and> w_stderr (final_world (link_gstdepay_cb pad w)) = w_stderr w
   \<and> link_gstdepay_cb 99 (initial_world (\<lambda>pad. GST_PAD_LINK_REFUSED) GST_STATE_PLAYING) =
       Returns GST_PAD_PROBE_REMOVE
         ((initial_world (\<lambda>pad. GST_PAD_LINK_REFUSED) GST_STATE_PLAYING)
            \<lparr>w_calls :=
               [Call_parse_launch gstdepay_description 0, Call_bin_add 0,
                Call_sync_state_with_parent 0, Call_ghost_pad_new 0,
                Call_element_add_pad 0 0, Call_pad_set_active 0 True,
                Call_pad_link 99 0 GST_PAD_LINK_REFUSED],
             w_bins :=
               [\<lparr>bin_elements = parse_description gstdepay_description,
                 bin_state = GST_STATE_PLAYING, bin_in_pipeline = True, bin_pads = [0]\<rparr>],
             w_ghost_pads := [\<lparr>gp_target = Some (0, ''q'', ''sink''), gp_active = True\<rparr>],
             w_links := []\<rparr>)
   \<and> aborted (link_cb 96 (initial_world (\<lambda>pad. GST_PAD_LINK_REFUSED) GST_STATE_PLAYING))"
  by (simp add: link_gstdepay_cb_eq link_cb_fail initial_world_def link_answer_def)

subsection \<open>What a packet does to the graph\<close>

lemma gst_pad_push_no_probes:
  "w_probes w = [] \<Longrightarrow>
   gst_pad_push pad p w = Returns () (w\<lparr>w_pushed := w_pushed w @ [(pad, p)]\<rparr>)"
  by (simp add: gst_pad_push_def)

lemma demux_chain_seen_port:
  "\<lbrakk>w_probes w = []; pkt_pt p \<in> set (w_seen w); pkt_pt p \<in> set (w_src_pads w)\<rbrakk> \<Longrightarrow>
   demux_chain p w = Returns () (w\<lparr>w_pushed := w_pushed w @ [(pkt_pt p, p)]\<rparr>)"
  by (simp add: demux_chain_def gst_pad_push_no_probes)

lemma demux_chain_seen_no_port:
  "\<lbrakk>pkt_pt p \<in> set (w_seen w); pkt_pt p \<notin> set (w_src_pads w)\<rbrakk> \<Longrightarrow>
   demux_chain p w = Returns () w"
  by (simp add: demux_chain_def)

lemma demux_chain_new_unmapped:
  "\<lbrakk>pkt_pt p \<notin> set (w_seen w); pkt_pt p \<noteq> 96; pkt_pt p \<noteq> 99\<rbrakk> \<Longrightarrow>
   demux_chain p w =
     Returns () (w\<lparr>w_stdout := w_stdout w @ [''wrong! pt'' @ [newline]],
                   w_seen := w_seen w @ [pkt_pt p]\<rparr>)"
  by (simp add: demux_chain_def request_pt_map_cb_other)

lemma request_pt_map_cb_96_Some: "\<exists>c. request_pt_map_cb 96 = ([], Some c)"
  using request_pt_map_cb_96 by blast

lemma request_pt_map_cb_99_Some: "\<exists>c. request_pt_map_cb 99 = ([], Some c)"
  using request_pt_map_cb_99 by blast

lemma demux_chain_new_99:
  assumes "w_probes w = []" "pkt_pt p \<notin> set (w_seen w)" "pkt_pt p = 99"
  shows "demux_chain p w =
     Returns ()
       (w\<lparr>w_stdout := w_stdout w @ [''new payload type pt: '' @ show_int (sint (99 :: 32 word)) @ [newline]],
          w_calls := w_calls w @
            [Signal_new_payload_type 99 99,
             Call_pad_add_probe 99 Link_gstdepay_cb,
             Call_probe_cb 99 Link_gstdepay_cb,
             Call_parse_launch gstdepay_description (length (w_bins w)),
             Call_bin_add (length (w_bins w)),
             Call_sync_state_with_parent (length (w_bins w)),
             Call_ghost_pad_new (length (w_ghost_pads w)),
             Call_element_add_pad (length (w_bins w)) (length (w_ghost_pads w)),
             Call_pad_set_active (length (w_ghost_pads w)) True,
             Call_pad_link 99 (length (w_ghost_pads w)) (link_answer 99 w)],
          w_bins := w_bins w @
            [\<lparr>bin_elements = parse_description gstdepay_description,
              bin_state = w_pipeline_state w, bin_in_pipeline = True,
              bin_pads = [length (w_ghost_pads w)]\<rparr>],
          w_ghost_pads := w_ghost_pads w @
            [\<lparr>gp_target = Some (length (w_bins w), ''q'', ''sink''), gp_active = True\<rparr>],
          w_links := (if link_answer 99 w = GST_PAD_LINK_OK
                      then w_links w @ [(99, length (w_ghost_pads w))] else w_links w),
          w_seen := w_seen w @ [99],
          w_src_pads := w_src_pads w @ [99],
          w_pushed := w_pushed w @ [(99, p)]\<rparr>)"
proof -
  obtain c where c: "request_pt_map_cb 99 = ([], Some c)"
    using request_pt_map_cb_99_Some by blast
  show ?thesis
    using assms
    by (simp add: demux_chain_def c log_call_def new_payload_type_cb_99 gst_pad_push_no_probes)
qed

lemma demux_chain_new_96_ok:
  assumes "w_probes w = []" "pkt_pt p \<notin> set (w_seen w)" "pkt_pt p = 96"
    "link_answer 96 w = GST_PAD_LINK_OK"
  shows "demux_chain p w =
     Returns ()
       (w\<lparr>w_stdout := w_stdout w @
            [''new payload type pt: '' @ show_int (sint (96 :: 32 word)) @ [newline],
             ''pad link probe : '' @ GST_PAD_NAME 96 @ [newline],
             ''linking done for video'' @ [newline]],
          w_calls := w_calls w @
            [Signal_new_payload_type 96 96,
             Call_pad_add_probe 96 Link_cb,
             Call_probe_cb 96 Link_cb,
             Call_parse_launch video_description (length (w_bins w)),
             Call_bin_add (length (w_bins w)),
             Call_ghost_pad_new (length (w_ghost_pads w)),
             Call_element_add_pad (length (w_bins w)) (length (w_ghost_pads w)),
             Call_pad_link 96 (length (w_ghost_pads w)) GST_PAD_LINK_OK,
             Call_pad_set_active (length (w_ghost_pads w)) True,
             Call_sync_state_with_parent (length (w_bins w))],
          w_bins := w_bins w @
            [\<lparr>bin_elements = parse_description video_description,
              bin_state = w_pipeline_state w, bin_in_pipeline = True,
              bin_pads = [length (w_ghost_pads w)]\<rparr>],
          w_ghost_pads := w_ghost_pads w @
            [\<lparr>gp_target = Some (length (w_bins w), ''q'', ''sink''), gp_active = True\<rparr>],
          w_links := w_links w @ [(96, length (w_ghost_pads w))],
          w_seen := w_seen w @ [96],
          w_src_pads := w_src_pads w @ [96],
          w_pushed := w_pushed w @ [(96, p)]\<rparr>)"
proof -
  obtain c where c: "request_pt_map_cb 96 = ([], Some c)"
    using request_pt_map_cb_96_Some by blast
  show ?thesis
    using assms
    by (simp add: demux_chain_def c log_call_def new_payload_type_cb_96_ok gst_pad_push_no_probes)
qed

lemma demux_chain_new_96_fail:
  assumes "pkt_pt p \<notin> set (w_seen w)" "pkt_pt p = 96"
    "link_answer 96 w \<noteq> GST_PAD_LINK_OK"
  shows "demux_chain p w =
     Aborts
       (w\<lparr>w_stdout := w_stdout w @
            [''new payload type pt: '' @ show_int (sint (96 :: 32 word)) @ [newline],
             ''pad link probe : '' @ GST_PAD_NAME 96 @ [newline]],
          w_stderr := w_stderr w @ [''failed to link pad to gpad''],
          w_calls := w_calls w @
            [Signal_new_payload_type 96 96,
             Call_pad_add_probe 96 Link_cb,
             Call_probe_cb 96 Link_cb,
             Call_parse_launch video_description (length (w_bins w)),
             Call_bin_add (length (w_bins w)),
             Call_ghost_pad_new (length (w_ghost_pads w)),
             Call_element_add_pad (length (w_bins w)) (length (w_ghost_pads w)),
             Call_pad_link 96 (length (w_ghost_pads w)) (link_answer 96 w)],
          w_bins := w_bins w @
            [\<lparr>bin_elements = parse_description video_description,
              bin_state = GST_STATE_NULL, bin_in_pipeline = True,
              bin_pads = [length (w_ghost_pads w)]\<rparr>],
          w_ghost_pads := w_ghost_pads w @
            [\<lparr>gp_target = Some (length (w_bins w), ''q'', ''sink''), gp_active = False\<rparr>],
          w_seen := w_seen w @ [96],
          w_src_pads := w_src_pads w @ [96]\<rparr>)"
proof -
  obtain c where c: "request_pt_map_cb 96 = ([], Some c)"
    using request_pt_map_cb_96_Some by blast
  show ?thesis
    using assms
    by (simp add: demux_chain_def c log_call_def new_payload_type_cb_96_fail)
qed

subsection \<open>The invariant holds throughout a run\<close>

lemma attach_inv_initial: "attach_inv (initial_world a st)"
  by (simp add: attach_inv_def initial_world_def attachment_events_def builder_runs_def
      List.map_filter_simps)

lemma mapped_pt_simps [simp]:
  "mapped_pt 96" "mapped_pt 99"
  by (simp_all add: mapped_pt_def)

lemma not_mapped_pt: "pt \<noteq> 96 \<Longrightarrow> pt \<noteq> 99 \<Longrightarrow> \<not> mapped_pt pt"
  by (simp add: mapped_pt_def)

lemma attach_inv_step:
  assumes inv: "attach_inv w"
  shows "attach_inv (final_world (demux_chain p w))"
proof -
  have np: "w_probes w = []" using inv by (simp add: attach_inv_def)
  consider (seen_port) "pkt_pt p \<in> set (w_seen w)" "pkt_pt p \<in> set (w_src_pads w)"
    | (seen_no_port) "pkt_pt p \<in> set (w_seen w)" "pkt_pt p \<notin> set (w_src_pads w)"
    | (unmapped) "pkt_pt p \<notin> set (w_seen w)" "pkt_pt p \<noteq> 96" "pkt_pt p \<noteq> 99"
    | (app) "pkt_pt p \<notin> set (w_seen w)" "pkt_pt p = 99"
    | (video_ok) "pkt_pt p \<notin> set (w_seen w)" "pkt_pt p = 96"
        "link_answer 96 w = GST_PAD_LINK_OK"
    | (video_fail) "pkt_pt p \<notin> set (w_seen w)" "pkt_pt p = 96"
        "link_answer 96 w \<noteq> GST_PAD_LINK_OK"
    by blast
  then show ?thesis
  proof cases
    case seen_port
    then show ?thesis using inv
      by (auto simp: demux_chain_seen_port [OF np] attach_inv_def attachment_events_def
          builder_runs_def)
  next
    case seen_no_port
    then show ?thesis using inv by (simp add: demux_chain_seen_no_port)
  next
    case unmapped
    then show ?thesis using inv
      by (auto simp: demux_chain_new_unmapped attach_inv_def attachment_events_def
          builder_runs_def not_mapped_pt)
  next
    case app
    have fresh: "99 \<notin> set (map fst (w_links w))"
      using inv app by (auto simp: attach_inv_def)
    show ?thesis using inv app fresh
      by (simp add: demux_chain_new_99 [OF np] attach_inv_def attachment_events_def
          builder_runs_def List.map_filter_simps) auto
  next
    case video_ok
    have fresh: "96 \<notin> set (map fst (w_links w))"
      using inv video_ok by (auto simp: attach_inv_def)
    show ?thesis using inv video_ok fresh
      by (simp add: demux_chain_new_96_ok [OF np] attach_inv_def attachment_events_def
          builder_runs_def List.map_filter_simps) auto
  next
    case video_fail
    show ?thesis using inv video_fail
      by (simp add: demux_chain_new_96_fail attach_inv_def attachment_events_def
          builder_runs_def List.map_filter_simps) auto
  qed
qed

lemma attach_inv_run:
  "attach_inv w \<Longrightarrow> attach_inv (final_world (demux_run ps w))"
proof (induction ps arbitrary: w)
  case Nil
  then show ?case by simp
next
  case (Cons p ps)
  from Cons.prems have step: "attach_inv (final_world (demux_chain p w))"
    by (rule attach_inv_step)
  show ?case
  proof (cases "demux_chain p w")
    case (Returns u w')
    with step Cons.IH [of w'] show ?thesis by simp
  next
    case (Aborts w')
    with step show ?thesis by simp
  qed
qed

lemma count_list_distinct:
  "distinct xs \<Longrightarrow> count_list xs x = (if x \<in> set xs then 1 else 0)"
  by (induction xs) auto

lemma filter_eq_upt: "filter (\<lambda>b. g = b) [0 ..< n] = (if g < n then [g] else [])"
  by (induction n) auto

lemma filter_fst_distinct:
  "distinct (map fst xs) \<Longrightarrow> length (filter (\<lambda>l. fst l = a) xs) \<le> 1"
  by (induction xs) (auto simp: filter_empty_conv image_iff)

lemma ghost_pad_bins_inv:
  assumes "attach_inv w"
  shows "ghost_pad_bins w g = (if g < length (w_bins w) then [g] else [])"
proof -
  have pads: "map bin_pads (w_bins w) = map (\<lambda>i. [i]) [0 ..< length (w_bins w)]"
    using assms by (simp add: attach_inv_def)
  have nth: "bin_pads (w_bins w ! b) = [b]" if "b < length (w_bins w)" for b
  proof -
    have "bin_pads (w_bins w ! b) = map bin_pads (w_bins w) ! b"
      using that by simp
    also have "\<dots> = map (\<lambda>i. [i]) [0 ..< length (w_bins w)] ! b"
      by (simp only: pads)
    also have "\<dots> = [b]" using that by simp
    finally show ?thesis .
  qed
  have "ghost_pad_bins w g = filter (\<lambda>b. g = b) [0 ..< length (w_bins w)]"
    unfolding ghost_pad_bins_def by (rule filter_cong) (auto simp: nth)
  then show ?thesis by (simp add: filter_eq_upt)
qed

lemma linked_bins_inv:
  assumes "attach_inv w"
  shows "length (linked_bins w pad) \<le> 1"
proof -
  have d: "distinct (map fst (w_links w))"
    using assms by (simp add: attach_inv_def)
  have short: "length (filter (\<lambda>l. fst l = pad) (w_links w)) \<le> 1"
    using d by (rule filter_fst_distinct)
  show ?thesis
  proof (cases "filter (\<lambda>l. fst l = pad) (w_links w)")
    case Nil
    then show ?thesis by (simp add: linked_bins_def)
  next
    case (Cons l ls)
    with short have "ls = []" by simp
    with Cons show ?thesis
      by (simp add: linked_bins_def ghost_pad_bins_inv [OF assms])
  qed
qed

lemma attach_inv_run_end: "attach_inv (run_end ps answer st)"
  unfolding run_end_def by (rule attach_inv_run) (rule attach_inv_initial)

lemma seen_step:
  assumes inv: "attach_inv w"
  shows "w_seen (final_world (demux_chain p w))
         = (if pkt_pt p \<in> set (w_seen w) then w_seen w else w_seen w @ [pkt_pt p])"
proof -
  have np: "w_probes w = []" using inv by (simp add: attach_inv_def)
  consider (seen_port) "pkt_pt p \<in> set (w_seen w)" "pkt_pt p \<in> set (w_src_pads w)"
    | (seen_no_port) "pkt_pt p \<in> set (w_seen w)" "pkt_pt p \<notin> set (w_src_pads w)"
    | (unmapped) "pkt_pt p \<notin> set (w_seen w)" "pkt_pt p \<noteq> 96" "pkt_pt p \<noteq> 99"
    | (app) "pkt_pt p \<notin> set (w_seen w)" "pkt_pt p = 99"
    | (video_ok) "pkt_pt p \<notin> set (w_seen w)" "pkt_pt p = 96"
        "link_answer 96 w = GST_PAD_LINK_OK"
    | (video_fail) "pkt_pt p \<notin> set (w_seen w)" "pkt_pt p = 96"
        "link_answer 96 w \<noteq> GST_PAD_LINK_OK"
    by blast
  then show ?thesis
  proof cases
    case seen_port
    then show ?thesis by (simp add: demux_chain_seen_port [OF np])
  next
    case seen_no_port
    then show ?thesis by (simp add: demux_chain_seen_no_port)
  next
    case unmapped
    then show ?thesis by (simp add: demux_chain_new_unmapped)
  next
    case app
    then show ?thesis by (simp add: demux_chain_new_99 [OF np])
  next
    case video_ok
    then show ?thesis by (simp add: demux_chain_new_96_ok [OF np])
  next
    case video_fail
    then show ?thesis by (simp add: demux_chain_new_96_fail)
  qed
qed

lemma seen_run_subset:
  "attach_inv w \<Longrightarrow>
   set (w_seen (final_world (demux_run ps w))) \<subseteq> set (w_seen w) \<union> pkt_pt ` set ps"
proof (induction ps arbitrary: w)
  case Nil
  then show ?case by simp
next
  case (Cons p ps)
  have step: "attach_inv (final_world (demux_chain p w))"
    using Cons.prems by (rule attach_inv_step)
  have seen: "set (w_seen (final_world (demux_chain p w))) \<subseteq> set (w_seen w) \<union> {pkt_pt p}"
    by (auto simp: seen_step [OF Cons.prems])
  show ?case
  proof (cases "demux_chain p w")
    case (Returns u w')
    with step seen Cons.IH [of w'] show ?thesis by auto
  next
    case (Aborts w')
    with seen show ?thesis by auto
  qed
qed

lemma seen_run_all:
  "attach_inv w \<Longrightarrow> \<not> aborted (demux_run ps w) \<Longrightarrow>
   set (w_seen (final_world (demux_run ps w))) = set (w_seen w) \<union> pkt_pt ` set ps"
proof (induction ps arbitrary: w)
  case Nil
  then show ?case by simp
next
  case (Cons p ps)
  have step: "attach_inv (final_world (demux_chain p w))"
    using Cons.prems(1) by (rule attach_inv_step)
  have seen: "set (w_seen (final_world (demux_chain p w))) = set (w_seen w) \<union> {pkt_pt p}"
    by (auto simp: seen_step [OF Cons.prems(1)])
  show ?case
  proof (cases "demux_chain p w")
    case (Returns u w')
    with step seen Cons.prems(2) Cons.IH [of w'] show ?thesis by auto
  next
    case (Aborts w')
    with Cons.prems(2) show ?thesis by simp
  qed
qed

subsection \<open>One port and one branch for each payload type\<close>

lemma seen_run_end: "set (w_seen (run_end ps answer st)) \<subseteq> pkt_pt ` set ps"
  using seen_run_subset [OF attach_inv_initial, of ps answer st]
  by (simp add: run_end_def initial_world_def)

text \<open>
  C1: at the end of every run, whatever packets arrived and in whatever order, and for
  every payload type: the demultiplexer has at most one port for it, at most one
  attachment event was raised for it, a branch-building callback ran at most once on its
  port, every such run built exactly one bin, at most one bin is linked to the port, and
  the attachment event was raised exactly once if the type was seen and is resolved, and
  never otherwise. The types seen are types of packets that arrived.
\<close>

theorem attachment_once_per_payload_type:
  "count_list (w_src_pads (run_end ps answer st)) pt \<le> 1
   \<and> count_list (attachment_events (run_end ps answer st)) pt \<le> 1
   \<and> count_list (builder_runs (run_end ps answer st)) pt \<le> 1
   \<and> length (w_bins (run_end ps answer st)) = length (builder_runs (run_end ps answer st))
   \<and> length (linked_bins (run_end ps answer st) pt) \<le> 1
   \<and> count_list (attachment_events (run_end ps answer st)) pt
       = (if pt \<in> set (w_seen (run_end ps answer st)) \<and> mapped_pt pt then 1 else 0)
   \<and> set (w_seen (run_end ps answer st)) \<subseteq> pkt_pt ` set ps"
proof -
  let ?W = "run_end ps answer st"
  have inv: "attach_inv ?W" by (rule attach_inv_run_end)
  then have seen: "distinct (w_seen ?W)"
    and pads: "w_src_pads ?W = filter mapped_pt (w_seen ?W)"
    and events: "attachment_events ?W = w_src_pads ?W"
    and runs: "builder_runs ?W = w_src_pads ?W"
    and bins: "length (w_bins ?W) = length (w_src_pads ?W)"
    by (simp_all add: attach_inv_def)
  have d: "distinct (w_src_pads ?W)"
    using seen by (simp add: pads)
  have c: "count_list (w_src_pads ?W) pt
             = (if pt \<in> set (w_seen ?W) \<and> mapped_pt pt then 1 else 0)"
    using count_list_distinct [OF d, of pt] by (simp add: pads)
  show ?thesis
    using c linked_bins_inv [OF inv, of pt] seen_run_end [of ps answer st]
    by (simp add: events runs bins)
qed

subsection \<open>Packets of unresolved payload types\<close>

lemma forget_unmapped_fields [simp]:
  "w_probes (forget_unmapped w) = w_probes w"
  "w_src_pads (forget_unmapped w) = w_src_pads w"
  "w_seen (forget_unmapped w) = filter mapped_pt (w_seen w)"
  "w_bins (forget_unmapped w) = w_bins w"
  "w_ghost_pads (forget_unmapped w) = w_ghost_pads w"
  "w_links (forget_unmapped w) = w_links w"
  "w_calls (forget_unmapped w) = w_calls w"
  "w_pushed (forget_unmapped w) = w_pushed w"
  "w_stderr (forget_unmapped w) = w_stderr w"
  "w_pipeline_state (forget_unmapped w) = w_pipeline_state w"
  "w_stdout (forget_unmapped w) = filter (\<lambda>l. l \<noteq> ''wrong! pt'' @ [newline]) (w_stdout w)"
  "link_answer pad (forget_unmapped w) = link_answer pad w"
  by (simp_all add: forget_unmapped_def)

lemma forget_unmapped_initial [simp]:
  "forget_unmapped (initial_world answer st) = initial_world answer st"
  by (simp add: forget_unmapped_def initial_world_def)

lemma src_pads_mapped:
  "attach_inv w \<Longrightarrow> pt \<in> set (w_src_pads w) \<Longrightarrow> mapped_pt pt"
  by (simp add: attach_inv_def)

lemma forget_unmapped_step_unmapped:
  assumes inv: "attach_inv w" and un: "\<not> mapped_pt (pkt_pt p)"
  shows "\<exists>w'. demux_chain p w = Returns () w' \<and> forget_unmapped w' = forget_unmapped w"
proof -
  have ne: "pkt_pt p \<noteq> 96" "pkt_pt p \<noteq> 99"
    using un by (auto simp: mapped_pt_def)
  show ?thesis
  proof (cases "pkt_pt p \<in> set (w_seen w)")
    case False
    then show ?thesis
      using un by (simp add: demux_chain_new_unmapped [OF False ne] forget_unmapped_def)
  next
    case True
    have "pkt_pt p \<notin> set (w_src_pads w)"
      using src_pads_mapped [OF inv] un by blast
    with True show ?thesis by (simp add: demux_chain_seen_no_port)
  qed
qed

lemma forget_unmapped_step_mapped:
  assumes inv: "attach_inv w" and m: "mapped_pt (pkt_pt p)"
  shows "demux_chain p (forget_unmapped w) = on_world forget_unmapped (demux_chain p w)"
proof -
  have np: "w_probes w = []" using inv by (simp add: attach_inv_def)
  have np': "w_probes (forget_unmapped w) = []" using np by simp
  have pads: "w_src_pads w = filter mapped_pt (w_seen w)"
    using inv by (simp add: attach_inv_def)
  have seen_iff: "pkt_pt p \<in> set (w_seen (forget_unmapped w)) \<longleftrightarrow> pkt_pt p \<in> set (w_seen w)"
    using m by simp
  have port_iff: "pkt_pt p \<in> set (w_src_pads w) \<longleftrightarrow> pkt_pt p \<in> set (w_seen w)"
    using m by (simp add: pads)
  consider (seen) "pkt_pt p \<in> set (w_seen w)"
    | (app) "pkt_pt p \<notin> set (w_seen w)" "pkt_pt p = 99"
    | (video_ok) "pkt_pt p \<notin> set (w_seen w)" "pkt_pt p = 96"
        "link_answer 96 w = GST_PAD_LINK_OK"
    | (video_fail) "pkt_pt p \<notin> set (w_seen w)" "pkt_pt p = 96"
        "link_answer 96 w \<noteq> GST_PAD_LINK_OK"
    using m unfolding mapped_pt_def by blast
  then show ?thesis
  proof cases
    case seen
    have 1: "demux_chain p w = Returns () (w\<lparr>w_pushed := w_pushed w @ [(pkt_pt p, p)]\<rparr>)"
      using seen port_iff by (simp add: demux_chain_seen_port [OF np])
    have 2: "demux_chain p (forget_unmapped w)
          = Returns () ((forget_unmapped w)\<lparr>w_pushed := w_pushed (forget_unmapped w) @ [(pkt_pt p, p)]\<rparr>)"
      using seen port_iff seen_iff by (simp add: demux_chain_seen_port [OF np'])
    show ?thesis by (simp add: 1 2) (simp add: forget_unmapped_def)
  next
    case app
    have s': "pkt_pt p \<notin> set (w_seen (forget_unmapped w))" using app seen_iff by blast
    show ?thesis
      by (simp add: demux_chain_new_99 [OF np app] demux_chain_new_99 [OF np' s' app(2)])
         (simp add: forget_unmapped_def)
  next
    case video_ok
    have s': "pkt_pt p \<notin> set (w_seen (forget_unmapped w))" using video_ok seen_iff by blast
    have l': "link_answer 96 (forget_unmapped w) = GST_PAD_LINK_OK" using video_ok by simp
    show ?thesis
      by (simp add: demux_chain_new_96_ok [OF np video_ok]
            demux_chain_new_96_ok [OF np' s' video_ok(2) l'])
         (simp add: forget_unmapped_def)
  next
    case video_fail
    have s': "pkt_pt p \<notin> set (w_seen (forget_unmapped w))" using video_fail seen_iff by blast
    have l': "link_answer 96 (forget_unmapped w) \<noteq> GST_PAD_LINK_OK" using video_fail by simp
    show ?thesis
      by (simp add: demux_chain_new_96_fail [OF video_fail]
            demux_chain_new_96_fail [OF s' video_fail(2) l'])
         (simp add: forget_unmapped_def)
  qed
qed

lemma forget_unmapped_run:
  "attach_inv w \<Longrightarrow>
   demux_run (filter (\<lambda>p. mapped_pt (pkt_pt p)) ps) (forget_unmapped w)
   = on_world forget_unmapped (demux_run ps w)"
proof (induction ps arbitrary: w)
  case Nil
  then show ?case by simp
next
  case (Cons p ps)
  have step: "attach_inv (final_world (demux_chain p w))"
    using Cons.prems by (rule attach_inv_step)
  show ?case
  proof (cases "mapped_pt (pkt_pt p)")
    case True
    note comm = forget_unmapped_step_mapped [OF Cons.prems True]
    show ?thesis
    proof (cases "demux_chain p w")
      case (Returns u w')
      with step comm True Cons.IH [of w'] show ?thesis by simp
    next
      case (Aborts w')
      with comm True show ?thesis by simp
    qed
  next
    case False
    from forget_unmapped_step_unmapped [OF Cons.prems False]
    obtain w' where w': "demux_chain p w = Returns () w'"
      "forget_unmapped w' = forget_unmapped w"
      by blast
    with step have "attach_inv w'" by simp
    from Cons.IH [OF this] w' False show ?thesis by simp
  qed
qed

lemma wrong_pt_lines_step:
  assumes inv: "attach_inv w"
  shows "wrong_pt_lines (final_world (demux_chain p w))
         = wrong_pt_lines w
           + (if pkt_pt p \<notin> set (w_seen w) \<and> \<not> mapped_pt (pkt_pt p) then 1 else 0)"
proof -
  have np: "w_probes w = []" using inv by (simp add: attach_inv_def)
  consider (seen_port) "pkt_pt p \<in> set (w_seen w)" "pkt_pt p \<in> set (w_src_pads w)"
    | (seen_no_port) "pkt_pt p \<in> set (w_seen w)" "pkt_pt p \<notin> set (w_src_pads w)"
    | (unmapped) "pkt_pt p \<notin> set (w_seen w)" "pkt_pt p \<noteq> 96" "pkt_pt p \<noteq> 99"
    | (app) "pkt_pt p \<notin> set (w_seen w)" "pkt_pt p = 99"
    | (video_ok) "pkt_pt p \<notin> set (w_seen w)" "pkt_pt p = 96"
        "link_answer 96 w = GST_PAD_LINK_OK"
    | (video_fail) "pkt_pt p \<notin> set (w_seen w)" "pkt_pt p = 96"
        "link_answer 96 w \<noteq> GST_PAD_LINK_OK"
    by blast
  then show ?thesis
  proof cases
    case seen_port
    then show ?thesis by (simp add: demux_chain_seen_port [OF np] wrong_pt_lines_def)
  next
    case seen_no_port
    then show ?thesis by (simp add: demux_chain_seen_no_port)
  next
    case unmapped
    then show ?thesis
      by (simp add: demux_chain_new_unmapped wrong_pt_lines_def not_mapped_pt)
  next
    case app
    then show ?thesis by (simp add: demux_chain_new_99 [OF np] wrong_pt_lines_def)
  next
    case video_ok
    then show ?thesis by (simp add: demux_chain_new_96_ok [OF np] wrong_pt_lines_def)
  next
    case video_fail
    then show ?thesis by (simp add: demux_chain_new_96_fail wrong_pt_lines_def)
  qed
qed

lemma wrong_pt_lines_run:
  "attach_inv w \<Longrightarrow>
   wrong_pt_lines w = length (filter (\<lambda>x. \<not> mapped_pt x) (w_seen w)) \<Longrightarrow>
   wrong_pt_lines (final_world (demux_run ps w))
   = length (filter (\<lambda>x. \<not> mapped_pt x) (w_seen (final_world (demux_run ps w))))"
proof (induction ps arbitrary: w)
  case Nil
  then show ?case by simp
next
  case (Cons p ps)
  have step: "attach_inv (final_world (demux_chain p w))"
    using Cons.prems(1) by (rule attach_inv_step)
  have log: "wrong_pt_lines (final_world (demux_chain p w))
             = length (filter (\<lambda>x. \<not> mapped_pt x) (w_seen (final_world (demux_chain p w))))"
    using Cons.prems(2)
    by (simp add: wrong_pt_lines_step [OF Cons.prems(1)] seen_step [OF Cons.prems(1)])
  show ?case
  proof (cases "demux_chain p w")
    case (Returns u w')
    with step log Cons.IH [of w'] show ?thesis by simp
  next
    case (Aborts w')
    with log show ?thesis by simp
  qed
qed

lemma wrong_pt_lines_run_end:
  "wrong_pt_lines (run_end ps answer st)
   = length (filter (\<lambda>x. \<not> mapped_pt x) (w_seen (run_end ps answer st)))"
  unfolding run_end_def
  by (rule wrong_pt_lines_run [OF attach_inv_initial])
     (simp add: wrong_pt_lines_def initial_world_def)

lemma unmapped_not_aborted:
  "attach_inv w \<Longrightarrow> \<not> mapped_pt (pkt_pt p) \<Longrightarrow> \<not> aborted (demux_chain p w)"
  using forget_unmapped_step_unmapped [of w p] by auto

lemma unmapped_no_port:
  assumes "attach_inv w" and "\<not> mapped_pt pt"
  shows "pt \<notin> set (w_src_pads w)" and "pt \<notin> set (attachment_events w)"
    and "pt \<notin> set (builder_runs w)" and "pt \<notin> set (map fst (w_links w))"
    and "pt \<notin> set (map fst (w_pushed w))"
  using assms by (auto simp: attach_inv_def)

text \<open>
  C5: for a payload type other than 96 and 99, at the end of every run: the
  demultiplexer has no port for it, no attachment event was raised and no
  branch-building callback ran for it, no bin is linked for it, none of its packets
  left the demultiplexer, and one line \<open>wrong! pt\<close> was printed for each unresolved
  type seen; a further packet of the type does not abort the process; and the run gives
  what the run over the packets of types 96 and 99 alone gives, but for the marks and
  the printed lines of the unresolved types.
\<close>

theorem unmapped_payload_type_isolated:
  assumes "pt \<noteq> 96" and "pt \<noteq> 99" and "pkt_pt p = pt"
  shows "pt \<notin> set (w_src_pads (run_end ps answer st))
    \<and> pt \<notin> set (attachment_events (run_end ps answer st))
    \<and> pt \<notin> set (builder_runs (run_end ps answer st))
    \<and> linked_bins (run_end ps answer st) pt = []
    \<and> pt \<notin> set (map fst (w_pushed (run_end ps answer st)))
    \<and> wrong_pt_lines (run_end ps answer st)
        = length (filter (\<lambda>x. \<not> mapped_pt x) (w_seen (run_end ps answer st)))
    \<and> \<not> aborted (demux_chain p (run_end ps answer st))
    \<and> demux_run (filter (\<lambda>p. mapped_pt (pkt_pt p)) ps) (initial_world answer st)
        = on_world forget_unmapped (demux_run ps (initial_world answer st))"
proof -
  let ?W = "run_end ps answer st"
  have inv: "attach_inv ?W" by (rule attach_inv_run_end)
  have un: "\<not> mapped_pt pt" using assms(1,2) by (rule not_mapped_pt)
  note none = unmapped_no_port [OF inv un]
  have "filter (\<lambda>l. fst l = pt) (w_links ?W) = []"
    using none(4) by (auto simp: filter_empty_conv)
  then have linked: "linked_bins ?W pt = []"
    by (simp add: linked_bins_def)
  have alive: "\<not> aborted (demux_chain p ?W)"
    using inv un assms(3) by (simp add: unmapped_not_aborted)
  have same: "demux_run (filter (\<lambda>p. mapped_pt (pkt_pt p)) ps) (initial_world answer st)
        = on_world forget_unmapped (demux_run ps (initial_world answer st))"
    using forget_unmapped_run [OF attach_inv_initial, of ps answer st] by simp
  show ?thesis
    using none(1,2,3,5) linked alive same wrong_pt_lines_run_end [of ps answer st]
    by simp
qed

theorem unmapped_payload_type_isolated_witness:
  "(5 :: 32 word) \<noteq> 96 \<and> (5 :: 32 word) \<noteq> 99
   \<and> pkt_pt \<lparr>pkt_pt = 5, pkt_seqnum = 4\<rparr> = 5
   \<and> 5 \<notin> set (w_src_pads (run_end
        [\<lparr>pkt_pt = 96, pkt_seqnum = 0\<rparr>, \<lparr>pkt_pt = 5, pkt_seqnum = 1\<rparr>,
         \<lparr>pkt_pt = 99, pkt_seqnum = 2\<rparr>, \<lparr>pkt_pt = 5, pkt_seqnum = 3\<rparr>]
        (\<lambda>pad. GST_PAD_LINK_OK) GST_STATE_PLAYING))
   \<and> 5 \<notin> set (map fst (w_pushed (run_end
        [\<lparr>pkt_pt = 96, pkt_seqnum = 0\<rparr>, \<lparr>pkt_pt = 5, pkt_seqnum = 1\<rparr>,
         \<lparr>pkt_pt = 99, pkt_seqnum = 2\<rparr>, \<lparr>pkt_pt = 5, pkt_seqnum = 3\<rparr>]
        (\<lambda>pad. GST_PAD_LINK_OK) GST_STATE_PLAYING)))
   \<and> \<not> aborted (demux_chain \<lparr>pkt_pt = 5, pkt_seqnum = 4\<rparr> (run_end
        [\<lparr>pkt_pt = 96, pkt_seqnum = 0\<rparr>, \<lparr>pkt_pt = 5, pkt_seqnum = 1\<rparr>,
         \<lparr>pkt_pt = 99, pkt_seqnum = 2\<rparr>, \<lparr>pkt_pt = 5, pkt_seqnum = 3\<rparr>]
        (\<lambda>pad. GST_PAD_LINK_OK) GST_STATE_PLAYING))
   \<and> demux_run [\<lparr>pkt_pt = 96, pkt_seqnum = 0\<rparr>, \<lparr>pkt_pt = 99, pkt_seqnum = 2\<rparr>]
        (initial_world (\<lambda>pad. GST_PAD_LINK_OK) GST_STATE_PLAYING)
      = on_world forget_unmapped (demux_run
        [\<lparr>pkt_pt = 96, pkt_seqnum = 0\<rparr>, \<lparr>pkt_pt = 5, pkt_seqnum = 1\<rparr>,
         \<lparr>pkt_pt = 99, pkt_seqnum = 2\<rparr>, \<lparr>pkt_pt = 5, pkt_seqnum = 3\<rparr>]
        (initial_world (\<lambda>pad. GST_PAD_LINK_OK) GST_STATE_PLAYING))"
  using unmapped_payload_type_isolated [of 5 "\<lparr>pkt_pt = 5, pkt_seqnum = 4\<rparr>"
      "[\<lparr>pkt_pt = 96, pkt_seqnum = 0\<rparr>, \<lparr>pkt_pt = 5, pkt_seqnum = 1\<rparr>,
        \<lparr>pkt_pt = 99, pkt_seqnum = 2\<rparr>, \<lparr>pkt_pt = 5, pkt_seqnum = 3\<rparr>]"
      "\<lambda>pad. GST_PAD_LINK_OK" GST_STATE_PLAYING]
  by (simp add: mapped_pt_def)

subsection \<open>Errors on the command line\<close>

lemma parse_rest_arg_cb_frame:
  "p_calls (snd (parse_rest_arg_cb v p)) = p_calls p"
  "p_pipeline (snd (parse_rest_arg_cb v p)) = p_pipeline p"
  "p_help (snd (parse_rest_arg_cb v p)) = p_help p"
  by (simp_all add: parse_rest_arg_cb_def g_printerr_def)

lemma parse_frame:
  "p_calls (snd (g_option_context_parse as p)) = p_calls p
   \<and> p_pipeline (snd (g_option_context_parse as p)) = p_pipeline p"
proof (induction as p rule: g_option_context_parse.induct)
  case (5 v as p)
  then show ?case
    using parse_rest_arg_cb_frame [of v p]
    by (cases "parse_rest_arg_cb v p") (auto split: bool.splits)
qed simp_all

lemma parse_bad_rest:
  "list_ex is_bad_rest as \<Longrightarrow> fst (g_option_context_parse as p) \<noteq> None"
proof (induction as p rule: g_option_context_parse.induct)
  case (5 v as p)
  then show ?case
    by (cases "parse_rest_arg_cb v p")
       (auto simp: parse_rest_arg_cb_def split: bool.splits if_splits)
qed simp_all

lemma parse_help:
  "p_help p \<or> Arg_help \<in> set as \<Longrightarrow>
   fst (g_option_context_parse as p) \<noteq> None \<or> p_help (snd (g_option_context_parse as p))"
proof (induction as p rule: g_option_context_parse.induct)
  case (5 v as p)
  then show ?case
    using parse_rest_arg_cb_frame(3) [of v p]
    by (cases "parse_rest_arg_cb v p") (auto split: bool.splits)
qed auto

lemma parse_no_rest:
  "\<not> list_ex is_rest as \<Longrightarrow> opt_uri (p_options p) = None \<Longrightarrow>
   fst (g_option_context_parse as p) \<noteq> None
   \<or> opt_uri (p_options (snd (g_option_context_parse as p))) = None"
  by (induction as p rule: g_option_context_parse.induct) auto

text \<open>
  C8: when the command line has no positional argument, or has a positional argument
  that does not start with \<open>srt://\<close>, or has the help flag, \<open>main\<close> returns -1,
  having written to the standard error stream, before GStreamer is initialised and
  before any pipeline is launched.
\<close>

theorem startup_errors_exit_negative:
  assumes "\<not> list_ex is_rest argv \<or> list_ex is_bad_rest argv \<or> Arg_help \<in> set argv"
  shows "\<exists>p. main argv launch_ok msgs = Some (- 1, p) \<and> p_stderr p \<noteq> [] \<and> no_graph p"
proof -
  obtain e p1 where parse: "g_option_context_parse argv initial_proc = (e, p1)"
    by (cases "g_option_context_parse argv initial_proc")
  have frame: "p_calls p1 = []" "\<not> p_pipeline p1"
    using parse_frame [of argv initial_proc] parse by (simp_all add: initial_proc_def)
  show ?thesis
  proof (cases e)
    case (Some err)
    with parse frame show ?thesis
      by (simp add: main_def g_printerr_def no_graph_def)
  next
    case None
    have "p_help p1 \<or> opt_uri (p_options p1) = None"
      using assms
    proof (elim disjE)
      assume "\<not> list_ex is_rest argv"
      from parse_no_rest [OF this, of initial_proc] parse None
      show ?thesis by (simp add: initial_proc_def)
    next
      assume "list_ex is_bad_rest argv"
      from parse_bad_rest [OF this, of initial_proc] parse None
      show ?thesis by simp
    next
      assume "Arg_help \<in> set argv"
      then have "p_help initial_proc \<or> Arg_help \<in> set argv" by simp
      from parse_help [OF this] parse None
      show ?thesis by simp
    qed
    with parse None frame show ?thesis
      by (auto simp: main_def g_printerr_def no_graph_def Option.is_none_def)
  qed
qed

theorem startup_errors_exit_negative_witness:
  "(\<exists>p. main [] True [GST_MESSAGE_EOS] = Some (- 1, p) \<and> p_stderr p \<noteq> [] \<and> no_graph p)
   \<and> (\<exists>p. main [Arg_user ''alice'', Arg_rest ''http://host:7001''] True [GST_MESSAGE_EOS]
            = Some (- 1, p) \<and> p_stderr p \<noteq> [] \<and> no_graph p)
   \<and> (\<exists>p. main [Arg_rest ''srt://host:7001'', Arg_help] True [GST_MESSAGE_EOS]
            = Some (- 1, p) \<and> p_stderr p \<noteq> [] \<and> no_graph p)"
  using startup_errors_exit_negative [of "[]" True "[GST_MESSAGE_EOS]"]
    startup_errors_exit_negative
      [of "[Arg_user ''alice'', Arg_rest ''http://host:7001'']" True "[GST_MESSAGE_EOS]"]
    startup_errors_exit_negative
      [of "[Arg_rest ''srt://host:7001'', Arg_help]" True "[GST_MESSAGE_EOS]"]
  by simp

subsection \<open>A second positional argument\<close>

lemma parse_simple_prefix:
  "\<not> list_ex is_rest pre \<Longrightarrow> \<not> list_ex is_unknown pre \<Longrightarrow>
   \<exists>p'. (\<forall>rest. g_option_context_parse (pre @ rest) p = g_option_context_parse rest p')
        \<and> opt_uri (p_options p') = opt_uri (p_options p)
        \<and> p_stderr p' = p_stderr p"
proof (induction pre arbitrary: p)
  case Nil
  then show ?case by auto
next
  case (Cons a pre)
  show ?case
  proof (cases a)
    case (Arg_user v)
    from Cons.prems Cons.IH [of "p\<lparr>p_options := (p_options p)\<lparr>opt_user := Some v\<rparr>\<rparr>"] Arg_user
    show ?thesis by auto
  next
    case (Arg_resource v)
    from Cons.prems Cons.IH [of "p\<lparr>p_options := (p_options p)\<lparr>opt_resource := Some v\<rparr>\<rparr>"]
      Arg_resource
    show ?thesis by auto
  next
    case Arg_help
    from Cons.prems Cons.IH [of "p\<lparr>p_help := True\<rparr>"] Arg_help
    show ?thesis by auto
  next
    case (Arg_rest v)
    with Cons.prems show ?thesis by simp
  next
    case (Arg_unknown s)
    with Cons.prems show ?thesis by simp
  qed
qed

text \<open>
  C10, as the claim states it: whenever more than one positional argument is supplied,
  the second one is rejected with \<open>URI has already been set.\<close> and the first URI is
  retained. With a first positional argument that does not start with \<open>srt://\<close>
  parsing stops at the first one: no URI is set and the second argument is never looked
  at. With an argument that the option parser rejects between the two, parsing stops
  there.
\<close>

theorem second_uri_not_reached:
  "main [Arg_rest ''host:7001'', Arg_rest ''srt://host:7001''] True [GST_MESSAGE_EOS]
     = Some (- 1, initial_proc\<lparr>p_stderr :=
         [Err_text (''Invalid SRT uri: host:7001'' @ [newline]),
          Err_message G_OPTION_ERROR_FAILED]\<rparr>)
   \<and> opt_uri (p_options initial_proc) = None
   \<and> main [Arg_rest ''srt://host:7001'', Arg_unknown ''--bogus'', Arg_rest ''srt://other:7002'']
        True [GST_MESSAGE_EOS]
     = Some (- 1, initial_proc\<lparr>p_options := (p_options initial_proc)\<lparr>opt_uri := Some ''srt://host:7001''\<rparr>,
         p_stderr := [Err_message (G_OPTION_ERROR_UNKNOWN_OPTION ''--bogus'')]\<rparr>)"
  by (simp add: main_def parse_rest_arg_cb_def non_null_def g_printerr_def initial_proc_def)

text \<open>
  C10, amended: when a positional argument that starts with \<open>srt://\<close> is followed by a
  second positional argument, and the option parser itself rejects no argument before
  the second one, then the second one is rejected during parsing with
  \<open>URI has already been set.\<close>, whether or not it is well-formed; the first URI stays
  in the options; and \<open>main\<close> returns -1 before GStreamer is initialised and before
  any pipeline is launched.
\<close>

theorem second_uri_rejected:
  assumes argv: "argv = pre @ Arg_rest u1 # mid @ Arg_rest u2 # post"
    and pre: "\<not> list_ex is_rest pre" "\<not> list_ex is_unknown pre"
    and mid: "\<not> list_ex is_rest mid" "\<not> list_ex is_unknown mid"
    and u1: "g_str_has_prefix u1 ''srt://''"
  shows "\<exists>p. main argv launch_ok msgs = Some (- 1, p)
           \<and> opt_uri (p_options p) = Some u1
           \<and> p_stderr p = [Err_text (''URI has already been set.'' @ [newline]),
                           Err_message G_OPTION_ERROR_FAILED]
           \<and> no_graph p"
proof -
  from parse_simple_prefix [OF pre, of initial_proc]
  obtain pa where pa:
    "\<And>rest. g_option_context_parse (pre @ rest) initial_proc = g_option_context_parse rest pa"
    "opt_uri (p_options pa) = None" "p_stderr pa = []"
    by (auto simp: initial_proc_def)
  define pb where "pb = pa\<lparr>p_options := (p_options pa)\<lparr>opt_uri := Some u1\<rparr>\<rparr>"
  have first: "parse_rest_arg_cb u1 pa = (True, pb)"
    using pa(2) u1 by (simp add: parse_rest_arg_cb_def non_null_def pb_def)
  from parse_simple_prefix [OF mid, of pb]
  obtain pc where pc:
    "\<And>rest. g_option_context_parse (mid @ rest) pb = g_option_context_parse rest pc"
    "opt_uri (p_options pc) = Some u1" "p_stderr pc = []"
    using pa(3) by (auto simp: pb_def)
  define pd where "pd = g_printerr (Err_text (''URI has already been set.'' @ [newline])) pc"
  have second: "parse_rest_arg_cb u2 pc = (False, pd)"
    using pc(2) by (simp add: parse_rest_arg_cb_def non_null_def pd_def)
  have parse: "g_option_context_parse argv initial_proc = (Some G_OPTION_ERROR_FAILED, pd)"
    by (simp add: argv pa(1) first pc(1) second)
  have frame: "p_calls pd = []" "\<not> p_pipeline pd"
    using parse_frame [of argv initial_proc] parse by (simp_all add: initial_proc_def)
  have "opt_uri (p_options pd) = Some u1"
    "p_stderr pd = [Err_text (''URI has already been set.'' @ [newline])]"
    using pc(2,3) by (simp_all add: pd_def g_printerr_def)
  with parse frame show ?thesis
    by (simp add: main_def g_printerr_def no_graph_def)
qed

theorem second_uri_rejected_witness:
  "(\<exists>p. main [Arg_user ''alice'', Arg_rest ''srt://host:7001'', Arg_help, Arg_rest ''srt://other:7002'']
           True [GST_MESSAGE_EOS] = Some (- 1, p)
        \<and> opt_uri (p_options p) = Some ''srt://host:7001''
        \<and> p_stderr p = [Err_text (''URI has already been set.'' @ [newline]),
                        Err_message G_OPTION_ERROR_FAILED]
        \<and> no_graph p)
   \<and> (\<exists>p. main [Arg_rest ''srt://host:7001'', Arg_rest ''not a uri'']
           True [GST_MESSAGE_EOS] = Some (- 1, p)
        \<and> opt_uri (p_options p) = Some ''srt://host:7001''
        \<and> p_stderr p = [Err_text (''URI has already been set.'' @ [newline]),
                        Err_message G_OPTION_ERROR_FAILED]
        \<and> no_graph p)"
  using second_uri_rejected [of
      "[Arg_user ''alice'', Arg_rest ''srt://host:7001'', Arg_help, Arg_rest ''srt://other:7002'']"
      "[Arg_user ''alice'']" "''srt://host:7001''" "[Arg_help]" "''srt://other:7002''" "[]"
      True "[GST_MESSAGE_EOS]"]
    second_uri_rejected [of
      "[Arg_rest ''srt://host:7001'', Arg_rest ''not a uri'']"
      "[]" "''srt://host:7001''" "[]" "''not a uri''" "[]" True "[GST_MESSAGE_EOS]"]
  by simp

subsection \<open>Termination at run time\<close>

lemma parse_rest_arg_cb_cases:
  obtains (rejected) p' where "parse_rest_arg_cb v p = (False, p')"
  | (accepted) "parse_rest_arg_cb v p = (True, p\<lparr>p_options := (p_options p)\<lparr>opt_uri := Some v\<rparr>\<rparr>)"
proof (cases "non_null (opt_uri (p_options p))")
  case True
  then show ?thesis by (intro rejected) (simp add: parse_rest_arg_cb_def)
next
  case False
  show ?thesis
  proof (cases "g_str_has_prefix v ''srt://''")
    case True
    with False show ?thesis by (intro accepted) (simp add: parse_rest_arg_cb_def)
  next
    case no_prefix: False
    with False show ?thesis by (intro rejected) (simp add: parse_rest_arg_cb_def)
  qed
qed

lemma parse_ok_frame:
  "fst (g_option_context_parse as p) = None \<Longrightarrow>
   p_stderr (snd (g_option_context_parse as p)) = p_stderr p"
proof (induction as p rule: g_option_context_parse.induct)
  case (5 v as p)
  show ?case
  proof (cases v p rule: parse_rest_arg_cb_cases)
    case (rejected p')
    with "5.prems" show ?thesis by simp
  next
    case accepted
    with "5.prems" "5.IH" [OF accepted [symmetric]] show ?thesis by simp
  qed
qed simp_all

lemma bus_watch_terminal:
  "is_terminal m \<Longrightarrow>
   bus_watch m p = (True, g_main_loop_quit (g_printerr (Err_text (''Terminated'' @ [newline])) p))"
  by (cases m) simp_all

lemma bus_watch_other: "\<not> is_terminal m \<Longrightarrow> bus_watch m p = (True, p)"
  by (cases m) simp_all

lemma dispatch_until_terminal:
  "p_loop_running p \<Longrightarrow> \<not> list_ex is_terminal pre \<Longrightarrow> is_terminal m \<Longrightarrow>
   dispatch_messages (pre @ m # post) p
   = Some (g_main_loop_quit (g_printerr (Err_text (''Terminated'' @ [newline])) p))"
proof (induction pre)
  case Nil
  then show ?case
    by (simp add: bus_watch_terminal g_main_loop_quit_def call_def)
next
  case (Cons a pre)
  then show ?case by (simp add: bus_watch_other)
qed

lemma dispatch_no_terminal:
  "p_loop_running p \<Longrightarrow> \<not> list_ex is_terminal ms \<Longrightarrow> dispatch_messages ms p = None"
  by (induction ms) (simp_all add: bus_watch_other)

lemma g_main_loop_run_terminal:
  "\<not> list_ex is_terminal pre \<Longrightarrow> is_terminal m \<Longrightarrow>
   g_main_loop_run (pre @ m # post) p
   = Some (g_main_loop_quit (g_printerr (Err_text (''Terminated'' @ [newline]))
             (call G_main_loop_run (p\<lparr>p_loop_running := True\<rparr>))))"
  unfolding g_main_loop_run_def
  by (rule dispatch_until_terminal) (simp_all add: call_def)

lemma call_fields [simp]:
  "p_options (call c p) = p_options p"
  "p_help (call c p) = p_help p"
  "p_stderr (call c p) = p_stderr p"
  "p_calls (call c p) = p_calls p @ [c]"
  "p_pipeline (call c p) = p_pipeline p"
  "p_pipeline_state (call c p) = p_pipeline_state p"
  "p_loop_running (call c p) = p_loop_running p"
  by (simp_all add: call_def)

lemma g_printerr_fields [simp]:
  "p_options (g_printerr l p) = p_options p"
  "p_stderr (g_printerr l p) = p_stderr p @ [l]"
  "p_calls (g_printerr l p) = p_calls p"
  "p_pipeline (g_printerr l p) = p_pipeline p"
  "p_pipeline_state (g_printerr l p) = p_pipeline_state p"
  "p_loop_running (g_printerr l p) = p_loop_running p"
  by (simp_all add: g_printerr_def)

lemma gst_element_set_state_fields [simp]:
  "p_options (gst_element_set_state s p) = p_options p"
  "p_stderr (gst_element_set_state s p) = p_stderr p"
  "p_calls (gst_element_set_state s p) = p_calls p @ [Gst_element_set_state s]"
  "p_pipeline (gst_element_set_state s p) = p_pipeline p"
  "p_pipeline_state (gst_element_set_state s p) = s"
  "p_loop_running (gst_element_set_state s p) = p_loop_running p"
  by (simp_all add: gst_element_set_state_def)

lemma g_main_loop_quit_fields [simp]:
  "p_options (g_main_loop_quit p) = p_options p"
  "p_stderr (g_main_loop_quit p) = p_stderr p"
  "p_calls (g_main_loop_quit p) = p_calls p @ [G_main_loop_quit]"
  "p_pipeline (g_main_loop_quit p) = p_pipeline p"
  "p_pipeline_state (g_main_loop_quit p) = p_pipeline_state p"
  "p_loop_running (g_main_loop_quit p) = False"
  by (simp_all add: g_main_loop_quit_def)

lemma build_recv_pipeline_ok:
  "fst (build_recv_pipeline u s True p) = None"
  "p_options (snd (build_recv_pipeline u s True p)) = p_options p"
  "p_stderr (snd (build_recv_pipeline u s True p)) = p_stderr p"
  "p_calls (snd (build_recv_pipeline u s True p)) =
     p_calls p @ [Gst_parse_launch recv_description, Gst_bus_add_watch,
                  G_object_set_srtsrc u s, G_signal_connect ''new-payload-type'',
                  G_signal_connect ''request-pt-map'']"
  "p_pipeline (snd (build_recv_pipeline u s True p)) = True"
  "p_pipeline_state (snd (build_recv_pipeline u s True p)) = p_pipeline_state p"
  "p_loop_running (snd (build_recv_pipeline u s True p)) = p_loop_running p"
  by (simp_all add: build_recv_pipeline_def Let_def)

lemma main_started:
  assumes parse: "g_option_context_parse argv initial_proc = (None, p1)"
    and no_help: "\<not> p_help p1" and uri: "opt_uri (p_options p1) = Some uri"
  shows "main argv True msgs =
     (case g_main_loop_run msgs
             (gst_element_set_state GST_STATE_PLAYING
                (snd (build_recv_pipeline (Some uri)
                   (build_streamid (opt_user (p_options p1)) (opt_resource (p_options p1)))
                   True (call G_main_loop_new (call Gst_init p1))))) of
        None \<Rightarrow> None
      | Some p6 \<Rightarrow>
          Some (0, call G_main_loop_unref
                     (call Gst_object_unref (gst_element_set_state GST_STATE_NULL p6))))"
proof -
  obtain e p4 where b: "build_recv_pipeline (Some uri)
      (build_streamid (opt_user (p_options p1)) (opt_resource (p_options p1)))
      True (call G_main_loop_new (call Gst_init p1)) = (e, p4)"
    by (rule prod.exhaust)
  have e: "e = None"
    using build_recv_pipeline_ok(1) [of "Some uri"
        "build_streamid (opt_user (p_options p1)) (opt_resource (p_options p1))"
        "call G_main_loop_new (call Gst_init p1)"]
    by (simp add: b)
  show ?thesis
    using no_help uri by (simp add: main_def parse Let_def Option.is_none_def b e)
qed

text \<open>
  C9: after a successful start (the command line parsed, no help flag, a URI set, the
  receiving pipeline built), the first end-of-stream or error message on the bus makes
  \<open>main\<close> return 0: \<open>Terminated\<close> is the only line written, \<open>g_main_loop_quit\<close>
  is called once, and the pipeline is set to state NULL and released, in the order of
  the calls listed. With an end-of-stream message in the place of an error message, and
  whatever follows it, \<open>main\<close> returns the same value in the same state.
\<close>

theorem termination_exits_zero:
  assumes parse: "g_option_context_parse argv initial_proc = (None, p1)"
    and no_help: "\<not> p_help p1"
    and uri: "opt_uri (p_options p1) = Some uri"
    and pre: "\<not> list_ex is_terminal pre"
    and m: "is_terminal m"
  shows "\<exists>p. main argv True (pre @ m # post) = Some (0, p)
           \<and> p_stderr p = [Err_text (''Terminated'' @ [newline])]
           \<and> count_list (p_calls p) G_main_loop_quit = 1
           \<and> p_calls p =
               [Gst_init, G_main_loop_new, Gst_parse_launch recv_description,
                Gst_bus_add_watch,
                G_object_set_srtsrc (Some uri)
                  (build_streamid (opt_user (p_options p1)) (opt_resource (p_options p1))),
                G_signal_connect ''new-payload-type'', G_signal_connect ''request-pt-map'',
                Gst_element_set_state GST_STATE_PLAYING, G_main_loop_run, G_main_loop_quit,
                Gst_element_set_state GST_STATE_NULL, Gst_object_unref, G_main_loop_unref]
           \<and> p_pipeline_state p = GST_STATE_NULL
           \<and> \<not> p_loop_running p
           \<and> main argv True (pre @ GST_MESSAGE_EOS # post)
               = main argv True (pre @ GST_MESSAGE_ERROR # post')"
proof -
  have err: "p_stderr p1 = []"
    using parse_ok_frame [of argv initial_proc] parse by (simp add: initial_proc_def)
  have calls: "p_calls p1 = []"
    using parse_frame [of argv initial_proc] parse by (simp add: initial_proc_def)
  note started = main_started [OF parse no_help uri]
  have same: "main argv True (pre @ GST_MESSAGE_EOS # post)
               = main argv True (pre @ GST_MESSAGE_ERROR # post')"
    by (simp add: started g_main_loop_run_terminal [OF pre])
  define p5 where "p5 = gst_element_set_state GST_STATE_PLAYING
      (snd (build_recv_pipeline (Some uri)
         (build_streamid (opt_user (p_options p1)) (opt_resource (p_options p1)))
         True (call G_main_loop_new (call Gst_init p1))))"
  define p where "p = call G_main_loop_unref (call Gst_object_unref
         (gst_element_set_state GST_STATE_NULL
           (g_main_loop_quit (g_printerr (Err_text (''Terminated'' @ [newline]))
             (call G_main_loop_run (p5\<lparr>p_loop_running := True\<rparr>))))))"
  have run: "main argv True (pre @ m # post) = Some (0, p)"
    by (simp add: started g_main_loop_run_terminal [OF pre m] p_def p5_def)
  have fields: "p_stderr p = [Err_text (''Terminated'' @ [newline])]"
    "p_calls p =
       [Gst_init, G_main_loop_new, Gst_parse_launch recv_description,
        Gst_bus_add_watch,
        G_object_set_srtsrc (Some uri)
          (build_streamid (opt_user (p_options p1)) (opt_resource (p_options p1))),
        G_signal_connect ''new-payload-type'', G_signal_connect ''request-pt-map'',
        Gst_element_set_state GST_STATE_PLAYING, G_main_loop_run, G_main_loop_quit,
        Gst_element_set_state GST_STATE_NULL, Gst_object_unref, G_main_loop_unref]"
    "p_pipeline_state p = GST_STATE_NULL" "\<not> p_loop_running p"
    using err calls by (simp_all add: p_def p5_def build_recv_pipeline_ok)
  have "count_list (p_calls p) G_main_loop_quit = 1"
    by (simp add: fields(2))
  with run fields same show ?thesis by blast
qed

theorem termination_exits_zero_witness:
  "\<exists>p. main [Arg_user ''alice'', Arg_rest ''srt://host:7001''] True
          ([GST_MESSAGE_OTHER 7] @ GST_MESSAGE_ERROR # [GST_MESSAGE_EOS]) = Some (0, p)
       \<and> p_stderr p = [Err_text (''Terminated'' @ [newline])]
       \<and> count_list (p_calls p) G_main_loop_quit = 1
       \<and> p_calls p =
           [Gst_init, G_main_loop_new, Gst_parse_launch recv_description,
            Gst_bus_add_watch,
            G_object_set_srtsrc (Some ''srt://host:7001'') (Some ''#!::u=alice''),
            G_signal_connect ''new-payload-type'', G_signal_connect ''request-pt-map'',
            Gst_element_set_state GST_STATE_PLAYING, G_main_loop_run, G_main_loop_quit,
            Gst_element_set_state GST_STATE_NULL, Gst_object_unref, G_main_loop_unref]
       \<and> p_pipeline_state p = GST_STATE_NULL
       \<and> \<not> p_loop_running p
       \<and> main [Arg_user ''alice'', Arg_rest ''srt://host:7001''] True
             ([GST_MESSAGE_OTHER 7] @ GST_MESSAGE_EOS # [GST_MESSAGE_EOS])
           = main [Arg_user ''alice'', Arg_rest ''srt://host:7001''] True
               ([GST_MESSAGE_OTHER 7] @ GST_MESSAGE_ERROR # [])"
proof -
  let ?p1 = "initial_proc\<lparr>p_options :=
      \<lparr>opt_uri = Some ''srt://host:7001'', opt_user = Some ''alice'', opt_resource = None\<rparr>\<rparr>"
  have parse: "g_option_context_parse [Arg_user ''alice'', Arg_rest ''srt://host:7001'']
      initial_proc = (None, ?p1)"
    by (simp add: parse_rest_arg_cb_def non_null_def initial_proc_def)
  have no_help: "\<not> p_help ?p1" by (simp add: initial_proc_def)
  have uri: "opt_uri (p_options ?p1) = Some ''srt://host:7001''" by simp
  have pre: "\<not> list_ex is_terminal [GST_MESSAGE_OTHER 7]" by simp
  have m: "is_terminal GST_MESSAGE_ERROR" by simp
  have sid: "build_streamid (opt_user (p_options ?p1)) (opt_resource (p_options ?p1))
      = Some ''#!::u=alice''"
    by (simp add: build_streamid_cases)
  show ?thesis
    using termination_exits_zero [OF parse no_help uri pre m, of "[GST_MESSAGE_EOS]" "[]"]
    unfolding sid .
qed

end
